theory Spec2Isabelle
  imports Main "HOL-Library.Word" "HOL-Library.AList"
begin

unbundle bit_operations_syntax

section \<open>JavaScript strings and numbers\<close>

text \<open>
  Strings are lists of ASCII characters. The numbers the modelled code computes with are
  integers or come from \<^verbatim>\<open>parseInt\<close>: a number is \<open>NaN\<close>, an infinity, or \<open>Fin n\<close>, the double
  whose value is the integer \<open>n\<close>. Status codes, week days and epoch milliseconds stay
  below \<open>2^53\<close> and are plain integers.
\<close>

datatype jsnum = NaN | Fin int | PosInf | NegInf

function bit_length :: "int \<Rightarrow> int" where
  "bit_length n = (if n \<le> 0 then 0 else 1 + bit_length (n div 2))"
  by pat_completeness auto
termination
  by (relation "measure nat") auto

declare bit_length.simps [simp del]

text \<open>
  The double nearest to a non-negative integer, ties to the even significand (53 bits);
  \<open>None\<close> from \<open>2^1024\<close> on, where the double is infinite.
\<close>

definition round_magnitude :: "int \<Rightarrow> int option" where
  "round_magnitude n =
     (if n < 2 ^ 53 then Some n
      else (let k = nat (bit_length n - 53);
                q = n div 2 ^ k;
                r = n mod 2 ^ k;
                q1 = (if 2 * r > 2 ^ k \<or> (2 * r = 2 ^ k \<and> odd q) then q + 1 else q);
                v = q1 * 2 ^ k
            in if v \<ge> 2 ^ 1024 then None else Some v))"

text \<open>The Number value of a mathematical integer.\<close>

definition toNumber :: "int \<Rightarrow> jsnum" where
  "toNumber i =
     (if i \<ge> 0 then (case round_magnitude i of Some v \<Rightarrow> Fin v | None \<Rightarrow> PosInf)
      else (case round_magnitude (- i) of Some v \<Rightarrow> Fin (- v) | None \<Rightarrow> NegInf))"

text \<open>\<open>a + b\<close> and \<open>a - b\<close> on numbers: the exact result, rounded.\<close>

fun js_add :: "jsnum \<Rightarrow> jsnum \<Rightarrow> jsnum" where
  "js_add NaN y = NaN"
| "js_add x NaN = NaN"
| "js_add (Fin a) (Fin b) = toNumber (a + b)"
| "js_add PosInf NegInf = NaN"
| "js_add NegInf PosInf = NaN"
| "js_add PosInf y = PosInf"
| "js_add NegInf y = NegInf"
| "js_add (Fin a) PosInf = PosInf"
| "js_add (Fin a) NegInf = NegInf"

fun js_neg :: "jsnum \<Rightarrow> jsnum" where
  "js_neg NaN = NaN"
| "js_neg (Fin a) = Fin (- a)"
| "js_neg PosInf = NegInf"
| "js_neg NegInf = PosInf"

definition js_sub :: "jsnum \<Rightarrow> jsnum \<Rightarrow> jsnum" where
  "js_sub x y = js_add x (js_neg y)"

text \<open>\<^verbatim>\<open>s.split(sep)\<close> for a one-character separator; \<^verbatim>\<open>"".split(sep)\<close> is \<^verbatim>\<open>[""]\<close>.\<close>

fun split_on :: "char \<Rightarrow> string \<Rightarrow> string list" where
  "split_on sep [] = [[]]"
| "split_on sep (c # cs) =
     (if c = sep then [] # split_on sep cs
      else (case split_on sep cs of p # ps \<Rightarrow> (c # p) # ps | [] \<Rightarrow> [[c]]))"

definition is_digit :: "char \<Rightarrow> bool" where
  "is_digit c = (48 \<le> (of_char c :: nat) \<and> (of_char c :: nat) \<le> 57)"

definition is_hex :: "char \<Rightarrow> bool" where
  "is_hex c = (let n = (of_char c :: nat) in
     (48 \<le> n \<and> n \<le> 57) \<or> (97 \<le> n \<and> n \<le> 102) \<or> (65 \<le> n \<and> n \<le> 70))"

definition is_space :: "char \<Rightarrow> bool" where
  "is_space c = ((of_char c :: nat) \<in> {9, 10, 11, 12, 13, 32})"

definition digit_value :: "char \<Rightarrow> int" where
  "digit_value c = int (of_char c) - 48"

text \<open>
  \<^verbatim>\<open>parseInt(s, 10)\<close>: leading white space is skipped, one sign is read, then the longest
  run of decimal digits; what follows the digits is ignored; no digit at all gives \<open>NaN\<close>.
  The result is the Number value of the signed integer the digits denote, correctly
  rounded (as SpiderMonkey and V8 compute it; the standard lets an implementation drop the
  digits after the 20th).
\<close>

definition parseInt :: "string \<Rightarrow> jsnum" where
  "parseInt s =
     (let t = dropWhile is_space s;
          neg = (case t of c # _ \<Rightarrow> c = CHR ''-'' | [] \<Rightarrow> False);
          u = (case t of c # r \<Rightarrow> if c = CHR ''-'' \<or> c = CHR ''+'' then r else t | [] \<Rightarrow> []);
          ds = takeWhile is_digit u
      in if ds = [] then NaN
         else toNumber ((if neg then - 1 else 1) * foldl (\<lambda>a d. 10 * a + digit_value d) 0 ds))"

text \<open>\<^verbatim>\<open>n.toString()\<close> of an integer.\<close>

fun nat_toString :: "nat \<Rightarrow> string" where
  "nat_toString n =
     (if n < 10 then [char_of (48 + n)]
      else nat_toString (n div 10) @ [char_of (48 + n mod 10)])"

declare nat_toString.simps [simp del]

definition toString :: "int \<Rightarrow> string" where
  "toString n = (if n < 0 then CHR ''-'' # nat_toString (nat (- n)) else nat_toString (nat n))"

definition lower_char :: "char \<Rightarrow> char" where
  "lower_char c = (let n = (of_char c :: nat) in if 65 \<le> n \<and> n \<le> 90 then char_of (n + 32) else c)"

definition toLowerCase :: "string \<Rightarrow> string" where
  "toLowerCase s = map lower_char s"

fun startsWith :: "string \<Rightarrow> string \<Rightarrow> bool" where
  "startsWith s [] = True"
| "startsWith [] (p # ps) = False"
| "startsWith (c # cs) (p # ps) = (c = p \<and> startsWith cs ps)"

text \<open>\<^verbatim>\<open>s.includes(sub)\<close>: \<open>sub\<close> occurs in \<open>s\<close> as a contiguous run.\<close>

fun str_includes :: "string \<Rightarrow> string \<Rightarrow> bool" where
  "str_includes [] sub = (sub = [])"
| "str_includes (c # cs) sub = (startsWith (c # cs) sub \<or> str_includes cs sub)"

section \<open>JavaScript values\<close>

text \<open>
  The values of trigger parameters, as the interfaces of models.d.ts declare them:
  strings, numbers, booleans, arrays of strings or of numbers, and \<^verbatim>\<open>undefined\<close> for an
  optional property that is set to nothing. The address matcher is modelled on these
  values too, since its \<^verbatim>\<open>try\<close>/\<^verbatim>\<open>catch\<close> is there for arguments that are not strings.
\<close>

datatype pval =
    PUndefined
  | PStr string
  | PNum int
  | PBool bool
  | PStrs "string list"
  | PNums "int list"

text \<open>The message of an engine-raised \<^verbatim>\<open>TypeError\<close> is implementation-defined; the model fixes one.\<close>

definition typeErrorMessage :: string where
  "typeErrorMessage = ''TypeError''"

section \<open>The address matcher of the probe service (probes.js)\<close>

text \<open>\<^verbatim>\<open>ToInt32\<close>/\<^verbatim>\<open>ToUint32\<close> of a number: its value modulo \<open>2^32\<close>; \<open>NaN\<close> and the infinities give 0.\<close>

definition toInt32 :: "jsnum \<Rightarrow> 32 word" where
  "toInt32 x = (case x of Fin i \<Rightarrow> word_of_int i | _ \<Rightarrow> 0)"

definition isIPv4 :: "string \<Rightarrow> bool" where
  "isIPv4 ip =
     (let parts = split_on CHR ''.'' ip
      in length parts = 4 \<and>
         list_all (\<lambda>part. case parseInt part of
                      Fin num \<Rightarrow> num \<ge> 0 \<and> num \<le> 255 \<and> part = toString num
                    | _ \<Rightarrow> False) parts)"

text \<open>
  The pattern \<^verbatim>\<open>/^([0-9a-fA-F]{0,4}:){1,7}[0-9a-fA-F]{0,4}$/\<close> accepts one to seven groups
  of at most four hex digits, each followed by a colon, then a last such group: the
  strings that split at \<open>:\<close> into two to eight parts of at most four hex digits each.
\<close>

definition isIPv6 :: "string \<Rightarrow> bool" where
  "isIPv6 ip =
     (let parts = split_on CHR '':'' ip
      in 2 \<le> length parts \<and> length parts \<le> 8 \<and>
         list_all (\<lambda>part. length part \<le> 4 \<and> list_all is_hex part) parts)"

text \<open>
  \<^verbatim>\<open>ip.split('.').reduce((acc, part) => (acc << 8) + parseInt(part, 10), 0) >>> 0\<close>:
  \<open><<\<close> works on the accumulator's \<open>ToInt32\<close> and gives a signed 32-bit value, the sum is a
  number again, and \<open>>>> 0\<close> reads the final number as an unsigned 32-bit value.
\<close>

definition ipv4ToNumber :: "string \<Rightarrow> 32 word" where
  "ipv4ToNumber ip =
     toInt32 (foldl (\<lambda>acc part. js_add (Fin (sint (push_bit 8 (toInt32 acc)))) (parseInt part))
                (Fin 0) (split_on CHR ''.'' ip))"

text \<open>
  \<^verbatim>\<open>0xFFFFFFFF << (32 - prefix)\<close>: the left operand is the 32-bit pattern of all ones and
  the shift count is the low five bits of \<open>ToUint32(32 - prefix)\<close>, as JavaScript's \<open><<\<close>
  takes it.
\<close>

definition cidrMask :: "jsnum \<Rightarrow> 32 word" where
  "cidrMask prefix = push_bit (unat (toInt32 (js_sub (Fin 32) prefix) AND 31)) (0xFFFFFFFF :: 32 word)"

definition isIPv4InCIDR :: "string \<Rightarrow> string \<Rightarrow> jsnum \<Rightarrow> bool" where
  "isIPv4InCIDR ip network prefix =
     (let ipNum = ipv4ToNumber ip;
          networkNum = ipv4ToNumber network;
          mask = cidrMask prefix
      in (ipNum AND mask) = (networkNum AND mask))"

text \<open>
  \<^verbatim>\<open>network.toLowerCase().substring(0, Math.floor(prefix / 4))\<close>: dividing by 4 and
  rounding down are exact on these numbers; \<^verbatim>\<open>substring\<close> takes a negative end as 0 and an
  end beyond the string as its length.
\<close>

definition substring0 :: "string \<Rightarrow> jsnum \<Rightarrow> string" where
  "substring0 s prefix =
     (case prefix of Fin p \<Rightarrow> take (nat (p div 4)) s | PosInf \<Rightarrow> s | _ \<Rightarrow> [])"

definition isIPv6InCIDR :: "string \<Rightarrow> string \<Rightarrow> jsnum \<Rightarrow> bool" where
  "isIPv6InCIDR ip network prefix =
     startsWith (toLowerCase ip) (substring0 (toLowerCase network) prefix)"


text \<open>
  The \<^verbatim>\<open>try\<close> block of \<open>isIPInCIDR\<close>; \<open>Inl\<close> is the error it throws. \<^verbatim>\<open>cidr.split\<close> raises a
  \<^verbatim>\<open>TypeError\<close> when \<open>cidr\<close> is not a string, and so does \<^verbatim>\<open>ip.split\<close> in \<open>isIPv4(ip)\<close>, which
  is reached once the CIDR has two segments and a prefix that is a number.
\<close>

definition isIPInCIDR_try :: "pval \<Rightarrow> pval \<Rightarrow> string + bool" where
  "isIPInCIDR_try ip cidr =
     (case cidr of
        PStr c \<Rightarrow>
          (let parts = split_on CHR ''/'' c
           in if length parts \<noteq> 2 then Inr False
              else (let network = parts ! 0; prefixStr = parts ! 1; prefix = parseInt prefixStr
                    in if prefix = NaN then Inr False
                       else (case ip of
                               PStr i \<Rightarrow>
                                 if isIPv4 i \<and> isIPv4 network then Inr (isIPv4InCIDR i network prefix)
                                 else if isIPv6 i \<and> isIPv6 network
                                 then Inr (isIPv6InCIDR i network prefix)
                                 else Inr False
                             | _ \<Rightarrow> Inl typeErrorMessage)))
      | _ \<Rightarrow> Inl typeErrorMessage)"

text \<open>\<open>isIPInCIDR\<close>: the \<^verbatim>\<open>try\<close> block, with \<^verbatim>\<open>catch (error) { ...; return false }\<close>.\<close>

definition isIPInCIDR :: "pval \<Rightarrow> pval \<Rightarrow> string + bool" where
  "isIPInCIDR ip cidr =
     (case isIPInCIDR_try ip cidr of Inl errorMessage \<Rightarrow> Inr False | Inr b \<Rightarrow> Inr b)"

text \<open>
  \<^verbatim>\<open>addresses.some(address => cidrs.some(cidr => this.isIPInCIDR(address, cidr)))\<close>, on the
  string arrays the DNS probe passes.
\<close>

definition checkIPInCIDRRanges :: "string list \<Rightarrow> string list \<Rightarrow> bool" where
  "checkIPInCIDRRanges addresses cidrs =
     list_ex (\<lambda>address. list_ex (\<lambda>cidr. isIPInCIDR (PStr address) (PStr cidr) = Inr True) cidrs)
       addresses"


section \<open>Trigger objects and their serialisation\<close>

text \<open>
  A trigger is a JavaScript object. Its properties are kept in insertion order, which is
  the order \<^verbatim>\<open>JSON.stringify\<close> writes them in (no property name of a trigger is an array
  index, which would come first). The probes read a property at its declared type; a
  property that is absent,
  \<^verbatim>\<open>undefined\<close> or (outside the declared interfaces) of another type reads as \<open>None\<close>.
\<close>

type_synonym trigger = "(string \<times> pval) list"

definition getProp :: "trigger \<Rightarrow> string \<Rightarrow> pval" where
  "getProp t k = (case map_of t k of None \<Rightarrow> PUndefined | Some v \<Rightarrow> v)"

definition str_prop :: "trigger \<Rightarrow> string \<Rightarrow> string option" where
  "str_prop t k = (case getProp t k of PStr s \<Rightarrow> Some s | _ \<Rightarrow> None)"

definition num_prop :: "trigger \<Rightarrow> string \<Rightarrow> int option" where
  "num_prop t k = (case getProp t k of PNum n \<Rightarrow> Some n | _ \<Rightarrow> None)"

definition bool_prop :: "trigger \<Rightarrow> string \<Rightarrow> bool option" where
  "bool_prop t k = (case getProp t k of PBool b \<Rightarrow> Some b | _ \<Rightarrow> None)"

definition strs_prop :: "trigger \<Rightarrow> string \<Rightarrow> string list option" where
  "strs_prop t k = (case getProp t k of PStrs xs \<Rightarrow> Some xs | _ \<Rightarrow> None)"

definition nums_prop :: "trigger \<Rightarrow> string \<Rightarrow> int list option" where
  "nums_prop t k = (case getProp t k of PNums xs \<Rightarrow> Some xs | _ \<Rightarrow> None)"

text \<open>\<open>x || d\<close> on strings and numbers: the empty string, 0 and \<^verbatim>\<open>undefined\<close> are falsy.\<close>

definition or_str :: "string option \<Rightarrow> string \<Rightarrow> string" where
  "or_str x d = (case x of None \<Rightarrow> d | Some s \<Rightarrow> if s = [] then d else s)"

definition or_num :: "int option \<Rightarrow> int \<Rightarrow> int" where
  "or_num x d = (case x of None \<Rightarrow> d | Some n \<Rightarrow> if n = 0 then d else n)"

fun join :: "string \<Rightarrow> string list \<Rightarrow> string" where
  "join sep [] = []"
| "join sep [x] = x"
| "join sep (x # y # ys) = x @ sep @ join sep (y # ys)"

definition hex_digit :: "nat \<Rightarrow> char" where
  "hex_digit n = (if n < 10 then char_of (48 + n) else char_of (87 + n))"

text \<open>
  The escapes of \<^verbatim>\<open>JSON.stringify\<close>: the double quote (code 34) and the backslash (code 92)
  get a backslash, the control characters their short form or \<^verbatim>\<open>\u00XX\<close>.
\<close>

definition json_escape :: "char \<Rightarrow> string" where
  "json_escape c =
     (let n = (of_char c :: nat) in
      if n = 34 then [CHR 0x5C, CHR 0x22]
      else if n = 92 then [CHR 0x5C, CHR 0x5C]
      else if n = 8 then [CHR 0x5C, CHR ''b'']
      else if n = 12 then [CHR 0x5C, CHR ''f'']
      else if n = 10 then [CHR 0x5C, CHR ''n'']
      else if n = 13 then [CHR 0x5C, CHR ''r'']
      else if n = 9 then [CHR 0x5C, CHR ''t'']
      else if n < 32 then [CHR 0x5C, CHR ''u'', CHR ''0'', CHR ''0'', hex_digit (n div 16), hex_digit (n mod 16)]
      else [c])"

definition json_quote :: "string \<Rightarrow> string" where
  "json_quote s = CHR 0x22 # concat (map json_escape s) @ [CHR 0x22]"

fun json_value :: "pval \<Rightarrow> string" where
  "json_value PUndefined = []"
| "json_value (PStr s) = json_quote s"
| "json_value (PNum n) = toString n"
| "json_value (PBool b) = (if b then ''true'' else ''false'')"
| "json_value (PStrs xs) = ''['' @ join '','' (map json_quote xs) @ '']''"
| "json_value (PNums ns) = ''['' @ join '','' (map toString ns) @ '']''"

text \<open>\<^verbatim>\<open>JSON.stringify(trigger)\<close>: a property whose value is \<^verbatim>\<open>undefined\<close> is left out.\<close>

definition defined_props :: "trigger \<Rightarrow> trigger" where
  "defined_props t = filter (\<lambda>kv. snd kv \<noteq> PUndefined) t"

definition JSON_stringify :: "trigger \<Rightarrow> string" where
  "JSON_stringify t =
     ''{'' @ join '','' (map (\<lambda>kv. json_quote (fst kv) @ '':'' @ json_value (snd kv)) (defined_props t)) @ ''}''"

text \<open>\<^verbatim>\<open>const cacheKey = `${triggerType}_${JSON.stringify(trigger)}`\<close> of \<open>getProbeResult\<close>.\<close>

definition cacheKey :: "string \<Rightarrow> trigger \<Rightarrow> string" where
  "cacheKey triggerType t = triggerType @ ''_'' @ JSON_stringify t"

text \<open>
  Structural equality of two trigger objects: the same defined properties with the same
  values, whatever the order they were inserted in.
\<close>

definition struct_equal :: "trigger \<Rightarrow> trigger \<Rightarrow> bool" where
  "struct_equal t1 t2 =
     (distinct (map fst t1) \<and> distinct (map fst t2) \<and>
      set (defined_props t1) = set (defined_props t2))"

section \<open>The environment of the probes\<close>

text \<open>
  The probes await the network and read the clock. The environment is a record of
  operations on a world \<open>'w\<close> that the model never inspects: an awaited call returns its
  outcome and the world after it; the clock is read from the world. A rejected promise
  (network failure, abort by the probe's timeout or by \<open>abortAllProbes\<close>) is an outcome
  carrying the error's message. The abort controllers and the log are not modelled, nor
  are the options of \<^verbatim>\<open>fetch\<close> that are the same in every call (\<^verbatim>\<open>cache\<close>, \<^verbatim>\<open>signal\<close>). One
  evaluation pass runs at a time: nothing else changes the probe cache between two steps
  of the modelled code.
\<close>

record ipinfo =
  org :: "string option"
  country :: "string option"

record response =
  status :: int
  statusText :: string
  ok :: bool
  json :: "string + ipinfo"

datatype fetch_outcome = FetchRejected string | FetchResolved response

record fetch_init =
  request_method :: "string option"
  redirect :: "string option"

record dns_record =
  addresses :: "string list option"
  canonicalName :: "string option"

datatype dns_outcome = DnsRejected string | DnsResolved "dns_record option"

record 'w env =
  Date_now :: "'w \<Rightarrow> int"
  getDay :: "'w \<Rightarrow> nat"
  getHours :: "'w \<Rightarrow> nat"
  getMinutes :: "'w \<Rightarrow> nat"
  fetch :: "string option \<Rightarrow> fetch_init \<Rightarrow> 'w \<Rightarrow> fetch_outcome \<times> 'w"
  dns_resolve :: "string option \<Rightarrow> 'w \<Rightarrow> dns_outcome \<times> 'w"
  captivePortal_getState :: "'w \<Rightarrow> (string + string) \<times> 'w"

section \<open>The probe service (probes.js)\<close>

datatype probe_data =
    ReachabilityData int string
  | DnsData "string list" "string option"
  | CaptivePortalData string
  | IpInfoData ipinfo
  | TimeWindowData nat string string
  | ManualFlagData "bool option"

record ProbeResult =
  success :: bool
  error :: "string option"
  data :: "probe_data option"
  timestamp :: int

text \<open>The result of a \<^verbatim>\<open>catch\<close> branch: \<^verbatim>\<open>{ success: false, error: errorMessage, timestamp: Date.now() }\<close>.\<close>

definition failure :: "string \<Rightarrow> int \<Rightarrow> ProbeResult" where
  "failure errorMessage t = \<lparr>success = False, error = Some errorMessage, data = None, timestamp = t\<rparr>"

definition testReachability :: "'w env \<Rightarrow> trigger \<Rightarrow> 'w \<Rightarrow> ProbeResult \<times> 'w" where
  "testReachability e trigger w =
     (case fetch e (str_prop trigger ''url'')
             \<lparr>request_method = Some (or_str (str_prop trigger ''method'') ''HEAD''),
              redirect = Some ''manual''\<rparr> w of
        (FetchResolved rsp, w1) \<Rightarrow>
          (let expectStatus = or_num (num_prop trigger ''expectStatus'') 200
           in (\<lparr>success = (status rsp = expectStatus), error = None,
                data = Some (ReachabilityData (status rsp) (statusText rsp)),
                timestamp = Date_now e w1\<rparr>, w1))
      | (FetchRejected errorMessage, w1) \<Rightarrow> (failure errorMessage (Date_now e w1), w1))"

definition testDnsResolve :: "'w env \<Rightarrow> trigger \<Rightarrow> 'w \<Rightarrow> ProbeResult \<times> 'w" where
  "testDnsResolve e trigger w =
     (case dns_resolve e (str_prop trigger ''hostname'') w of
        (DnsRejected errorMessage, w1) \<Rightarrow> (failure errorMessage (Date_now e w1), w1)
      | (DnsResolved None, w1) \<Rightarrow> (failure ''No addresses resolved'' (Date_now e w1), w1)
      | (DnsResolved (Some dnsResult), w1) \<Rightarrow>
          (case addresses dnsResult of
             None \<Rightarrow> (failure ''No addresses resolved'' (Date_now e w1), w1)
           | Some addrs \<Rightarrow>
               if length addrs = 0 then (failure ''No addresses resolved'' (Date_now e w1), w1)
               else
                 (let s0 = True;
                      s1 = (case strs_prop trigger ''expectIPCIDR'' of
                              Some cidrs \<Rightarrow>
                                if length cidrs > 0 then checkIPInCIDRRanges addrs cidrs else s0
                            | None \<Rightarrow> s0);
                      s2 = (if str_prop trigger ''matches'' = Some ''exact''
                            then (case strs_prop trigger ''expectIPCIDR'' of
                                    Some expectedIPs \<Rightarrow>
                                      list_ex (\<lambda>addr. addr \<in> set expectedIPs) addrs
                                  | None \<Rightarrow> s1)
                            else s1)
                  in (\<lparr>success = s2, error = None,
                       data = Some (DnsData addrs (canonicalName dnsResult)),
                       timestamp = Date_now e w1\<rparr>, w1))))"

definition testCaptivePortal :: "'w env \<Rightarrow> trigger \<Rightarrow> 'w \<Rightarrow> ProbeResult \<times> 'w" where
  "testCaptivePortal e trigger w =
     (case captivePortal_getState e w of
        (Inr st, w1) \<Rightarrow>
          (\<lparr>success = (Some st = str_prop trigger ''state''), error = None,
            data = Some (CaptivePortalData st), timestamp = Date_now e w1\<rparr>, w1)
      | (Inl errorMessage, w1) \<Rightarrow> (failure errorMessage (Date_now e w1), w1))"

definition testIpInfo :: "'w env \<Rightarrow> trigger \<Rightarrow> 'w \<Rightarrow> ProbeResult \<times> 'w" where
  "testIpInfo e trigger w =
     (let url = or_str (str_prop trigger ''providerUrl'') ''https://ipinfo.io/json''
      in case fetch e (Some url) \<lparr>request_method = None, redirect = None\<rparr> w of
           (FetchRejected errorMessage, w1) \<Rightarrow> (failure errorMessage (Date_now e w1), w1)
         | (FetchResolved rsp, w1) \<Rightarrow>
             if \<not> ok rsp
             then (failure (''HTTP '' @ toString (status rsp) @ '': '' @ statusText rsp)
                     (Date_now e w1), w1)
             else
               (case json rsp of
                  Inl errorMessage \<Rightarrow> (failure errorMessage (Date_now e w1), w1)
                | Inr d \<Rightarrow>
                    (let s0 = True;
                         s1 = (case (str_prop trigger ''expectOrg'', org d) of
                                 (Some expectOrg, Some dataOrg) \<Rightarrow>
                                   if expectOrg \<noteq> [] \<and> dataOrg \<noteq> []
                                   then s0 \<and> str_includes (toLowerCase dataOrg) (toLowerCase expectOrg)
                                   else s0
                               | _ \<Rightarrow> s0);
                         s2 = (case (str_prop trigger ''expectCountry'', country d) of
                                 (Some expectCountry, Some dataCountry) \<Rightarrow>
                                   if expectCountry \<noteq> [] \<and> dataCountry \<noteq> []
                                   then s1 \<and> toLowerCase dataCountry = toLowerCase expectCountry
                                   else s1
                               | _ \<Rightarrow> s1)
                     in (\<lparr>success = s2, error = None, data = Some (IpInfoData d),
                          timestamp = Date_now e w1\<rparr>, w1))))"

text \<open>Strings compare by character code, position by position (\<open>\<le>\<close> of JavaScript strings).\<close>

fun str_le :: "string \<Rightarrow> string \<Rightarrow> bool" where
  "str_le [] t = True"
| "str_le (c # cs) [] = False"
| "str_le (c # cs) (d # ds) =
     ((of_char c :: nat) < of_char d \<or> (c = d \<and> str_le cs ds))"

definition padStart2 :: "string \<Rightarrow> string" where
  "padStart2 s = replicate (2 - length s) CHR ''0'' @ s"

definition testTimeWindow :: "'w env \<Rightarrow> trigger \<Rightarrow> 'w \<Rightarrow> ProbeResult \<times> 'w" where
  "testTimeWindow e trigger w =
     (let currentDay = (if getDay e w = 0 then 7 else getDay e w);
          currentTime = padStart2 (nat_toString (getHours e w)) @ '':'' @
                        padStart2 (nat_toString (getMinutes e w));
          s0 = True;
          s1 = (case nums_prop trigger ''days'' of
                  Some days \<Rightarrow> if length days > 0 then s0 \<and> int currentDay \<in> set days else s0
                | None \<Rightarrow> s0);
          s2 = (case (str_prop trigger ''from'', str_prop trigger ''to'') of
                  (Some from_time, Some to_time) \<Rightarrow>
                    if from_time \<noteq> [] \<and> to_time \<noteq> []
                    then s1 \<and> str_le from_time currentTime \<and> str_le currentTime to_time
                    else s1
                | _ \<Rightarrow> s1)
      in (\<lparr>success = s2, error = None,
           data = Some (TimeWindowData currentDay currentTime (or_str (str_prop trigger ''tz'') ''system'')),
           timestamp = Date_now e w\<rparr>, w))"

text \<open>\<^verbatim>\<open>success = trigger.value\<close>: a flag that is not set is falsy.\<close>

definition testManualFlag :: "'w env \<Rightarrow> trigger \<Rightarrow> 'w \<Rightarrow> ProbeResult \<times> 'w" where
  "testManualFlag e trigger w =
     (\<lparr>success = (bool_prop trigger ''value'' = Some True), error = None,
       data = Some (ManualFlagData (bool_prop trigger ''value'')),
       timestamp = Date_now e w\<rparr>, w)"

section \<open>The rule engine (rules.js)\<close>

record RuleAction =
  setActiveProfile :: string

text \<open>
  A rule as models.d.ts declares it. \<open>rule_when\<close> lists the keys of \<^verbatim>\<open>rule.when\<close> in the
  order of \<^verbatim>\<open>Object.keys\<close>, each with its trigger (\<open>None\<close>: the key is there and its value is
  \<^verbatim>\<open>undefined\<close> or \<^verbatim>\<open>null\<close>). The interface makes \<^verbatim>\<open>when\<close> and \<^verbatim>\<open>then\<close> mandatory, but rules are
  read from storage and \<open>evaluateRules\<close> guards each rule with \<^verbatim>\<open>try\<close>/\<^verbatim>\<open>catch\<close>: \<open>None\<close> in
  \<open>rule_when\<close> or \<open>rule_then\<close> is a rule object that lacks the field, on which the property
  access raises a \<^verbatim>\<open>TypeError\<close>.
\<close>

record Rule =
  rule_id :: string
  rule_name :: string
  rule_enabled :: bool
  rule_priority :: int
  rule_stopOnMatch :: bool
  rule_when :: "(string \<times> trigger option) list option"
  rule_then :: "RuleAction option"

record Options =
  timeout :: int
  enableCache :: bool
  cacheTimeout :: int

text \<open>\<^verbatim>\<open>EvaluationOptions\<close>: every option may be left out.\<close>

datatype EvaluationOptions =
  EvaluationOptions (opt_timeout: "int option") (opt_enableCache: "bool option")
    (opt_cacheTimeout: "int option")

definition DEFAULT_OPTIONS :: Options where
  "DEFAULT_OPTIONS = \<lparr>timeout = 30000, enableCache = True, cacheTimeout = 60000\<rparr>"

text \<open>\<^verbatim>\<open>{ ...base, ...options }\<close>, and a complete record passed where options are expected.\<close>

definition spread_options :: "Options \<Rightarrow> EvaluationOptions \<Rightarrow> Options" where
  "spread_options base options =
     \<lparr>timeout = (case opt_timeout options of Some v \<Rightarrow> v | None \<Rightarrow> timeout base),
      enableCache = (case opt_enableCache options of Some v \<Rightarrow> v | None \<Rightarrow> enableCache base),
      cacheTimeout = (case opt_cacheTimeout options of Some v \<Rightarrow> v | None \<Rightarrow> cacheTimeout base)\<rparr>"

definition as_options :: "Options \<Rightarrow> EvaluationOptions" where
  "as_options opts = EvaluationOptions (Some (timeout opts)) (Some (enableCache opts)) (Some (cacheTimeout opts))"

record CacheEntry =
  result :: ProbeResult
  expiry :: int

text \<open>
  The engine's state: the probe cache, a \<^verbatim>\<open>Map\<close> kept in insertion order, and the world.
  \<^verbatim>\<open>map.get(k)\<close> is \<open>map_of\<close>; \<^verbatim>\<open>map.set(k, v)\<close> and \<^verbatim>\<open>obj[k] = v\<close> replace the value of a key that is
  there and append a new key.
\<close>

record 'w engine =
  probeCache :: "(string \<times> CacheEntry) list"
  world :: 'w

definition obj_set :: "string \<Rightarrow> 'v \<Rightarrow> (string \<times> 'v) list \<Rightarrow> (string \<times> 'v) list" where
  "obj_set k v obj = AList.update k v obj"

text \<open>\<^verbatim>\<open>{ ...a, ...b }\<close>.\<close>

definition spread :: "(string \<times> 'v) list \<Rightarrow> (string \<times> 'v) list \<Rightarrow> (string \<times> 'v) list" where
  "spread a b = foldl (\<lambda>acc kv. obj_set (fst kv) (snd kv) acc) a b"

text \<open>The six cases of the \<^verbatim>\<open>switch (triggerType)\<close> of \<open>getProbeResult\<close>.\<close>

definition triggerTypes :: "string list" where
  "triggerTypes =
     [''reachability'', ''dnsResolve'', ''captivePortal'', ''ipInfo'', ''timeWindow'', ''manualFlag'']"

text \<open>The \<^verbatim>\<open>switch (triggerType)\<close> itself; \<open>Inl\<close> is the error it throws.\<close>

definition probeSwitch :: "'w env \<Rightarrow> string \<Rightarrow> trigger \<Rightarrow> 'w \<Rightarrow> (string + ProbeResult) \<times> 'w" where
  "probeSwitch e triggerType trigger w =
     (if triggerType = ''reachability'' then map_prod Inr id (testReachability e trigger w)
      else if triggerType = ''dnsResolve'' then map_prod Inr id (testDnsResolve e trigger w)
      else if triggerType = ''captivePortal'' then map_prod Inr id (testCaptivePortal e trigger w)
      else if triggerType = ''ipInfo'' then map_prod Inr id (testIpInfo e trigger w)
      else if triggerType = ''timeWindow'' then map_prod Inr id (testTimeWindow e trigger w)
      else if triggerType = ''manualFlag'' then map_prod Inr id (testManualFlag e trigger w)
      else (Inl (''Unknown trigger type: '' @ triggerType), w))"

text \<open>\<^verbatim>\<open>const cached = this.probeCache.get(cacheKey); if (cached && cached.expiry > Date.now())\<close>.\<close>

definition cached_entry :: "'w env \<Rightarrow> string \<Rightarrow> 'w engine \<Rightarrow> CacheEntry option" where
  "cached_entry e key st =
     (case map_of (probeCache st) key of
        Some c \<Rightarrow> if expiry c > Date_now e (world st) then Some c else None
      | None \<Rightarrow> None)"

definition getProbeResult ::
  "'w env \<Rightarrow> string \<Rightarrow> trigger \<Rightarrow> Options \<Rightarrow> 'w engine \<Rightarrow> (string + ProbeResult) \<times> 'w engine" where
  "getProbeResult e triggerType trigger options st =
     (let key = cacheKey triggerType trigger
      in case (if enableCache options then cached_entry e key st else None) of
           Some c \<Rightarrow> (Inr (result c), st)
         | None \<Rightarrow>
             (case probeSwitch e triggerType trigger (world st) of
                (Inl errorMessage, w1) \<Rightarrow> (Inl errorMessage, st\<lparr>world := w1\<rparr>)
              | (Inr r, w1) \<Rightarrow>
                  (Inr r,
                   if enableCache options
                   then \<lparr>probeCache =
                          obj_set key \<lparr>result = r, expiry = Date_now e w1 + cacheTimeout options\<rparr>
                            (probeCache st),
                         world = w1\<rparr>
                   else st\<lparr>world := w1\<rparr>)))"

definition clearCache :: "'w engine \<Rightarrow> 'w engine" where
  "clearCache st = st\<lparr>probeCache := []\<rparr>"

definition cleanExpiredCache :: "'w env \<Rightarrow> 'w engine \<Rightarrow> 'w engine" where
  "cleanExpiredCache e st =
     (let now = Date_now e (world st);
          expiredKeys = map fst (filter (\<lambda>kv. expiry (snd kv) \<le> now) (probeCache st))
      in st\<lparr>probeCache := foldl (\<lambda>c k. AList.delete k c) (probeCache st) expiredKeys\<rparr>)"

text \<open>\<^verbatim>\<open>rule.when[triggerType]\<close>, with \<^verbatim>\<open>if (!trigger) continue\<close>: \<open>None\<close> is a falsy value.\<close>

definition trigger_of :: "(string \<times> trigger option) list \<Rightarrow> string \<Rightarrow> trigger option" where
  "trigger_of whn triggerType = (case map_of whn triggerType of Some (Some t) \<Rightarrow> Some t | _ \<Rightarrow> None)"

definition probeKey :: "Rule \<Rightarrow> string \<Rightarrow> string" where
  "probeKey rl triggerType = rule_id rl @ ''_'' @ triggerType"

text \<open>
  The loop \<^verbatim>\<open>for (const triggerType of triggerKeys)\<close> of \<open>evaluateRule\<close>, on what is left of
  the keys; its variables are \<open>overallMatch\<close>, \<open>results\<close> and the engine's state.
\<close>

fun evaluateTriggers ::
  "'w env \<Rightarrow> Rule \<Rightarrow> (string \<times> trigger option) list \<Rightarrow> Options \<Rightarrow> string list \<Rightarrow>
   bool \<times> (string \<times> ProbeResult) list \<times> 'w engine \<Rightarrow> bool \<times> (string \<times> ProbeResult) list \<times> 'w engine" where
  "evaluateTriggers e rl whn opts [] acc = acc"
| "evaluateTriggers e rl whn opts (triggerType # triggerKeys) (overallMatch, res, st) =
     (case trigger_of whn triggerType of
        None \<Rightarrow> evaluateTriggers e rl whn opts triggerKeys (overallMatch, res, st)
      | Some trigger \<Rightarrow>
          (case getProbeResult e triggerType trigger opts st of
             (Inr r, st1) \<Rightarrow>
               evaluateTriggers e rl whn opts triggerKeys
                 (if \<not> success r then False else overallMatch, obj_set (probeKey rl triggerType) r res, st1)
           | (Inl errorMessage, st1) \<Rightarrow>
               evaluateTriggers e rl whn opts triggerKeys
                 (False,
                  obj_set (probeKey rl triggerType) (failure errorMessage (Date_now e (world st1))) res,
                  st1)))"

text \<open>\<open>evaluateRule\<close>; \<open>Inl\<close> is the error it throws, \<open>Inr\<close> its \<^verbatim>\<open>{ matched, results }\<close>.\<close>

definition evaluateRule ::
  "'w env \<Rightarrow> Rule \<Rightarrow> EvaluationOptions \<Rightarrow> 'w engine \<Rightarrow>
   (string + bool \<times> (string \<times> ProbeResult) list) \<times> 'w engine" where
  "evaluateRule e rl options st =
     (let opts = spread_options DEFAULT_OPTIONS options
      in case rule_when rl of
           None \<Rightarrow> (Inl typeErrorMessage, st)
         | Some whn \<Rightarrow>
             (let triggerKeys = map fst whn
              in if length triggerKeys = 0 then (Inr (False, []), st)
                 else (case evaluateTriggers e rl whn opts triggerKeys (True, [], st) of
                         (overallMatch, res, st1) \<Rightarrow> (Inr (overallMatch, res), st1))))"

record RuleEvaluationResult =
  matched :: bool
  rule :: "Rule option"
  profileId :: "string option"
  results :: "(string \<times> ProbeResult) list"
  evaluationTime :: int

text \<open>
  The loop \<^verbatim>\<open>for (const rule of enabledRules)\<close> of \<open>evaluateRules\<close>, on what is left of the
  rules, with \<open>allResults\<close> and the engine's state. A rule that matched and has no \<^verbatim>\<open>then\<close>
  raises inside the \<^verbatim>\<open>try\<close> block, after its results were merged.
\<close>

fun rulesLoop ::
  "'w env \<Rightarrow> Options \<Rightarrow> int \<Rightarrow> Rule list \<Rightarrow> (string \<times> ProbeResult) list \<Rightarrow> 'w engine \<Rightarrow>
   RuleEvaluationResult \<times> 'w engine" where
  "rulesLoop e opts startTime [] allResults st =
     (\<lparr>matched = False, rule = None, profileId = None, results = allResults,
       evaluationTime = Date_now e (world st) - startTime\<rparr>, st)"
| "rulesLoop e opts startTime (rl # rest) allResults st =
     (case evaluateRule e rl (as_options opts) st of
        (Inr (ruleMatched, ruleResults), st1) \<Rightarrow>
          (let allResults1 = spread allResults ruleResults
           in if ruleMatched
              then (case rule_then rl of
                      Some action \<Rightarrow>
                        (\<lparr>matched = True, rule = Some rl, profileId = Some (setActiveProfile action),
                          results = allResults1,
                          evaluationTime = Date_now e (world st1) - startTime\<rparr>, st1)
                    | None \<Rightarrow>
                        rulesLoop e opts startTime rest
                          (obj_set (rule_id rl @ ''_error'')
                             (failure typeErrorMessage (Date_now e (world st1))) allResults1) st1)
              else rulesLoop e opts startTime rest allResults1 st1)
      | (Inl errorMessage, st1) \<Rightarrow>
          rulesLoop e opts startTime rest
            (obj_set (rule_id rl @ ''_error'') (failure errorMessage (Date_now e (world st1))) allResults)
            st1)"

text \<open>
  \<^verbatim>\<open>Object.values(rules).filter(rule => rule.enabled).sort((a, b) => a.priority - b.priority)\<close>.
  The rules are given in the order of \<^verbatim>\<open>Object.values\<close>. \<^verbatim>\<open>Array.prototype.sort\<close> is stable and
  the comparator orders by priority, so the result is the stable sort by priority.
\<close>

definition enabledRules :: "Rule list \<Rightarrow> Rule list" where
  "enabledRules rules = sort_key rule_priority (filter rule_enabled rules)"

definition evaluateRules ::
  "'w env \<Rightarrow> Rule list \<Rightarrow> EvaluationOptions \<Rightarrow> 'w engine \<Rightarrow> RuleEvaluationResult \<times> 'w engine" where
  "evaluateRules e rules options st =
     (let startTime = Date_now e (world st);
          opts = spread_options DEFAULT_OPTIONS options
      in if length (enabledRules rules) = 0
         then (\<lparr>matched = False, rule = None, profileId = None, results = [],
                evaluationTime = Date_now e (world st) - startTime\<rparr>, st)
         else rulesLoop e opts startTime (enabledRules rules) [] st)"

text \<open>A rule with its \<open>stopOnMatch\<close> field set to \<open>b\<close>, everything else as it was.\<close>

definition with_stopOnMatch :: "bool \<Rightarrow> Rule \<Rightarrow> Rule" where
  "with_stopOnMatch b rl = rl\<lparr>rule_stopOnMatch := b\<rparr>"

section \<open>Fixtures\<close>

text \<open>
  An environment for the concrete runs: the world is the clock in milliseconds; every
  awaited call takes 5 ms; the network is down, except that the host \<open>intranet\<close> resolves
  to 10.0.0.5, the host \<open>void\<close> resolves to no address, and the IP information provider
  replies.
\<close>

definition testEnv :: "ipinfo \<Rightarrow> int env" where
  "testEnv reply =
     \<lparr>Date_now = (\<lambda>w. w), getDay = (\<lambda>w. 3), getHours = (\<lambda>w. 10), getMinutes = (\<lambda>w. 0),
      fetch = (\<lambda>url init w.
         if url = Some ''https://ipinfo.io/json''
         then (FetchResolved \<lparr>status = 200, statusText = ''OK'', ok = True, json = Inr reply\<rparr>, w + 5)
         else (FetchRejected ''NetworkError when attempting to fetch resource.'', w + 5)),
      dns_resolve = (\<lambda>host w.
         if host = Some ''intranet''
         then (DnsResolved (Some \<lparr>addresses = Some [''10.0.0.5''], canonicalName = None\<rparr>), w + 5)
         else if host = Some ''void''
         then (DnsResolved (Some \<lparr>addresses = Some [], canonicalName = None\<rparr>), w + 5)
         else (DnsRejected ''NS_ERROR_UNKNOWN_HOST'', w + 5)),
      captivePortal_getState = (\<lambda>w. (Inr ''unknown'', w + 5))\<rparr>"

definition noReply :: ipinfo where
  "noReply = \<lparr>org = None, country = None\<rparr>"

definition flagRule :: "string \<Rightarrow> int \<Rightarrow> bool \<Rightarrow> Rule" where
  "flagRule name p v =
     \<lparr>rule_id = name, rule_name = name, rule_enabled = True, rule_priority = p,
      rule_stopOnMatch = True, rule_when = Some [(''manualFlag'', Some [(''value'', PBool v)])],
      rule_then = Some \<lparr>setActiveProfile = ''profile-'' @ name\<rparr>\<rparr>"

definition reachUrlFirst :: trigger where
  "reachUrlFirst = [(''url'', PStr ''http://a''), (''method'', PStr ''GET'')]"

definition reachMethodFirst :: trigger where
  "reachMethodFirst = [(''method'', PStr ''GET''), (''url'', PStr ''http://a'')]"

definition dnsTrigger :: "string \<Rightarrow> string list \<Rightarrow> trigger" where
  "dnsTrigger host cidrs = [(''hostname'', PStr host), (''expectIPCIDR'', PStrs cidrs)]"

definition dnsExactTrigger :: "string \<Rightarrow> string list \<Rightarrow> trigger" where
  "dnsExactTrigger host ips =
     [(''hostname'', PStr host), (''matches'', PStr ''exact''), (''expectIPCIDR'', PStrs ips)]"

definition orgTrigger :: trigger where
  "orgTrigger = [(''expectOrg'', PStr ''Acme''), (''expectCountry'', PStr ''US'')]"

text \<open>
  The engine after one reachability probe of \<open>reachUrlFirst\<close> that started at time 1000 and
  failed, seen at time \<open>t\<close>.
\<close>

definition failedFetch :: ProbeResult where
  "failedFetch = failure ''NetworkError when attempting to fetch resource.'' 1005"

definition warmState :: "int \<Rightarrow> int engine" where
  "warmState t =
     \<lparr>probeCache = [(cacheKey ''reachability'' reachUrlFirst, \<lparr>result = failedFetch, expiry = 61005\<rparr>)],
      world = t\<rparr>"

text \<open>
  A rule with two triggers, the first of which fails; a rule with no trigger; a rule with
  a trigger type that the engine does not know; a rule object without \<^verbatim>\<open>when\<close>.
\<close>

definition twoTriggerRule :: Rule where
  "twoTriggerRule =
     \<lparr>rule_id = ''office'', rule_name = ''Office'', rule_enabled = True, rule_priority = 10,
      rule_stopOnMatch = False,
      rule_when = Some [(''manualFlag'', Some [(''value'', PBool False)]),
                        (''dnsResolve'', Some (dnsTrigger ''intranet'' [''10.0.0.0/24'']))],
      rule_then = Some \<lparr>setActiveProfile = ''profile-office''\<rparr>\<rparr>"

definition emptyRule :: Rule where
  "emptyRule =
     \<lparr>rule_id = ''e'', rule_name = ''Empty'', rule_enabled = True, rule_priority = 1,
      rule_stopOnMatch = False, rule_when = Some [],
      rule_then = Some \<lparr>setActiveProfile = ''profile-e''\<rparr>\<rparr>"

definition bogusRule :: Rule where
  "bogusRule =
     \<lparr>rule_id = ''r1'', rule_name = ''Bogus'', rule_enabled = True, rule_priority = 1,
      rule_stopOnMatch = False, rule_when = Some [(''bogus'', Some [])],
      rule_then = Some \<lparr>setActiveProfile = ''profile-r1''\<rparr>\<rparr>"

definition brokenRule :: Rule where
  "brokenRule =
     \<lparr>rule_id = ''r0'', rule_name = ''Broken'', rule_enabled = True, rule_priority = 0,
      rule_stopOnMatch = False, rule_when = None,
      rule_then = Some \<lparr>setActiveProfile = ''profile-r0''\<rparr>\<rparr>"

definition noOptions :: EvaluationOptions where
  "noOptions = EvaluationOptions None None None"

definition startState :: "int \<Rightarrow> int engine" where
  "startState t = \<lparr>probeCache = [], world = t\<rparr>"

section \<open>Facts about the helpers\<close>



section \<open>The address matcher fails closed\<close>


lemma toNumber_not_NaN: "toNumber i \<noteq> NaN"
  by (simp add: toNumber_def split: option.split)

































text \<open>
  A prefix beyond \<open>2^53\<close> is the nearest double: 9007199254740993 is read as \<open>2^53\<close>, the
  shift count is 0 and the whole address is compared.
\<close>

lemma isIPInCIDR_rounded_prefix:
  "parseInt ''9007199254740993'' = Fin 9007199254740992 \<and>
   isIPInCIDR (PStr ''10.0.0.5'') (PStr ''10.0.0.0/9007199254740993'') = Inr False"
  by code_simp


section \<open>The cache key follows the insertion order of the trigger's properties\<close>

lemma same_keys_same_set:
  "distinct (map fst xs) \<Longrightarrow> map fst xs = map fst ys \<Longrightarrow> set xs = set ys \<Longrightarrow> xs = ys"
proof (induction xs arbitrary: ys)
  case Nil
  then show ?case by simp
next
  case (Cons x xs)
  then obtain y ys' where ys: "ys = y # ys'" by (cases ys) auto
  from Cons.prems ys have keys: "map fst xs = map fst ys'" by auto
  from Cons.prems(1) have nx: "fst x \<notin> fst ` set xs" and dx: "distinct (map fst xs)" by auto
  from keys have img: "fst ` set xs = fst ` set ys'" by (metis set_map)
  from Cons.prems(3) ys have "x \<in> insert y (set ys')" by auto
  with nx img have xy: "x = y" by force
  have "x \<notin> set xs" using nx by force
  moreover have "y \<notin> set ys'" using nx img xy by force
  ultimately have "set xs = set ys'" using Cons.prems(3) ys xy by auto
  with Cons.IH [OF dx keys] xy ys show ?case by simp
qed

lemma distinct_defined_props: "distinct (map fst t) \<Longrightarrow> distinct (map fst (defined_props t))"
  by (simp add: defined_props_def distinct_map_filter)

text \<open>
  Claim C5, as the code has it. The cache key is the trigger type, an underscore and
  \<^verbatim>\<open>JSON.stringify\<close> of the trigger, which writes the defined properties in insertion
  order. Two structurally-equal trigger objects get the same key when their defined keys
  were inserted in the same order.
\<close>

theorem cacheKey_same_order:
  "struct_equal t1 t2 \<Longrightarrow> map fst (defined_props t1) = map fst (defined_props t2) \<Longrightarrow>
   cacheKey triggerType t1 = cacheKey triggerType t2"
proof -
  assume se: "struct_equal t1 t2"
    and keys: "map fst (defined_props t1) = map fst (defined_props t2)"
  from se have d: "distinct (map fst (defined_props t1))"
    by (simp add: struct_equal_def distinct_defined_props)
  from se have s: "set (defined_props t1) = set (defined_props t2)"
    by (simp add: struct_equal_def)
  have "defined_props t1 = defined_props t2"
    by (rule same_keys_same_set [OF d keys s])
  then show ?thesis by (simp add: cacheKey_def JSON_stringify_def)
qed

lemma reach_same_order:
  "struct_equal ((''expectStatus'', PUndefined) # reachUrlFirst) reachUrlFirst \<and>
   map fst (defined_props ((''expectStatus'', PUndefined) # reachUrlFirst)) =
   map fst (defined_props reachUrlFirst)"
  by code_simp

theorem cacheKey_same_order_witness:
  "struct_equal ((''expectStatus'', PUndefined) # reachUrlFirst) reachUrlFirst \<and>
   map fst (defined_props ((''expectStatus'', PUndefined) # reachUrlFirst)) =
   map fst (defined_props reachUrlFirst) \<and>
   cacheKey ''reachability'' ((''expectStatus'', PUndefined) # reachUrlFirst) =
   cacheKey ''reachability'' reachUrlFirst"
  using cacheKey_same_order [of "(''expectStatus'', PUndefined) # reachUrlFirst" reachUrlFirst
      "''reachability''"] reach_same_order
  by blast

text \<open>
  The claim as stated fails: the two reachability triggers below have the same
  properties, inserted in a different order, and get different keys; with the first
  one's result in the cache, the second one is probed again (the world's clock moves by
  a second fetch).
\<close>

theorem cacheKey_order_counterexample:
  "struct_equal reachUrlFirst reachMethodFirst \<and>
   cacheKey ''reachability'' reachUrlFirst \<noteq> cacheKey ''reachability'' reachMethodFirst \<and>
   world (snd (getProbeResult (testEnv noReply) ''reachability'' reachUrlFirst DEFAULT_OPTIONS
      (startState 1000))) = 1005 \<and>
   world (snd (getProbeResult (testEnv noReply) ''reachability'' reachMethodFirst DEFAULT_OPTIONS
      (snd (getProbeResult (testEnv noReply) ''reachability'' reachUrlFirst DEFAULT_OPTIONS
         (startState 1000))))) = 1010"
  by code_simp

section \<open>The DNS probe\<close>

lemma testDnsResolve_no_addresses:
  "dns_resolve e (str_prop t ''hostname'') w = (outcome, w1) \<Longrightarrow>
   outcome = DnsRejected msg \<or> outcome = DnsResolved None \<or>
   outcome = DnsResolved (Some rcd) \<and> (addresses rcd = None \<or> addresses rcd = Some []) \<Longrightarrow>
   \<not> success (fst (testDnsResolve e t w))"
  by (auto simp: testDnsResolve_def failure_def)

lemma testDnsResolve_cidr:
  "dns_resolve e (str_prop t ''hostname'') w = (DnsResolved (Some rcd), w1) \<Longrightarrow>
   addresses rcd = Some addrs \<Longrightarrow> addrs \<noteq> [] \<Longrightarrow>
   strs_prop t ''expectIPCIDR'' = Some cidrs \<Longrightarrow> cidrs \<noteq> [] \<Longrightarrow>
   str_prop t ''matches'' \<noteq> Some ''exact'' \<Longrightarrow>
   success (fst (testDnsResolve e t w)) =
     (\<exists>address \<in> set addrs. \<exists>cidr \<in> set cidrs. isIPInCIDR (PStr address) (PStr cidr) = Inr True)"
  by (simp add: testDnsResolve_def checkIPInCIDRRanges_def list_ex_iff)

lemma testDnsResolve_exact:
  "dns_resolve e (str_prop t ''hostname'') w = (DnsResolved (Some rcd), w1) \<Longrightarrow>
   addresses rcd = Some addrs \<Longrightarrow> addrs \<noteq> [] \<Longrightarrow>
   strs_prop t ''expectIPCIDR'' = Some cidrs \<Longrightarrow>
   str_prop t ''matches'' = Some ''exact'' \<Longrightarrow>
   success (fst (testDnsResolve e t w)) = (\<exists>address \<in> set addrs. address \<in> set cidrs)"
  by (simp add: testDnsResolve_def list_ex_iff)

lemma testDnsResolve_unconstrained:
  "dns_resolve e (str_prop t ''hostname'') w = (DnsResolved (Some rcd), w1) \<Longrightarrow>
   addresses rcd = Some addrs \<Longrightarrow> addrs \<noteq> [] \<Longrightarrow>
   strs_prop t ''expectIPCIDR'' = None \<or>
   strs_prop t ''expectIPCIDR'' = Some [] \<and> str_prop t ''matches'' \<noteq> Some ''exact'' \<Longrightarrow>
   success (fst (testDnsResolve e t w))"
  by (auto simp: testDnsResolve_def)

text \<open>
  Claim C6, as the code has it. \<open>testDnsResolve\<close> returns success:false whenever no
  address is resolved (the lookup is rejected, gives no record, or a record with no
  addresses). With addresses resolved: when \<open>expectIPCIDR\<close> is given and is not empty, and
  \<open>matches\<close> is not \<open>exact\<close>, success is that some resolved address lies in some listed
  range; when \<open>matches\<close> is \<open>exact\<close> and \<open>expectIPCIDR\<close> is given, success is instead that
  some resolved address is, as a string, a member of the list; when \<open>expectIPCIDR\<close> is
  absent, or is the empty list without \<open>exact\<close>, the probe succeeds.
\<close>

theorem testDnsResolve_success:
  "(dns_resolve e (str_prop t ''hostname'') w = (outcome, w1) \<and>
    (outcome = DnsRejected msg \<or> outcome = DnsResolved None \<or>
     outcome = DnsResolved (Some rcd) \<and> (addresses rcd = None \<or> addresses rcd = Some [])) \<longrightarrow>
      \<not> success (fst (testDnsResolve e t w))) \<and>
   (dns_resolve e (str_prop t ''hostname'') w = (DnsResolved (Some rcd), w1) \<and>
    addresses rcd = Some addrs \<and> addrs \<noteq> [] \<longrightarrow>
      (strs_prop t ''expectIPCIDR'' = Some cidrs \<and> cidrs \<noteq> [] \<and>
       str_prop t ''matches'' \<noteq> Some ''exact'' \<longrightarrow>
         success (fst (testDnsResolve e t w)) =
           (\<exists>address \<in> set addrs. \<exists>cidr \<in> set cidrs. isIPInCIDR (PStr address) (PStr cidr) = Inr True)) \<and>
      (strs_prop t ''expectIPCIDR'' = Some cidrs \<and> str_prop t ''matches'' = Some ''exact'' \<longrightarrow>
         success (fst (testDnsResolve e t w)) = (\<exists>address \<in> set addrs. address \<in> set cidrs)) \<and>
      (strs_prop t ''expectIPCIDR'' = None \<or>
       strs_prop t ''expectIPCIDR'' = Some [] \<and> str_prop t ''matches'' \<noteq> Some ''exact'' \<longrightarrow>
         success (fst (testDnsResolve e t w))))"
  using testDnsResolve_no_addresses [of e t w outcome w1 msg rcd]
    testDnsResolve_cidr [of e t w rcd w1 addrs cidrs]
    testDnsResolve_exact [of e t w rcd w1 addrs cidrs]
    testDnsResolve_unconstrained [of e t w rcd w1 addrs]
  by blast

lemma dns_run_void:
  "dns_resolve (testEnv noReply) (str_prop (dnsTrigger ''void'' []) ''hostname'') 0 =
     (DnsResolved (Some \<lparr>addresses = Some [], canonicalName = None\<rparr>), 5) \<and>
   addresses \<lparr>addresses = Some [], canonicalName = None\<rparr> = Some []"
  by code_simp

lemma dns_run_cidr:
  "dns_resolve (testEnv noReply)
     (str_prop (dnsTrigger ''intranet'' [''192.168.0.0/16'', ''10.0.0.0/24'']) ''hostname'') 0 =
     (DnsResolved (Some \<lparr>addresses = Some [''10.0.0.5''], canonicalName = None\<rparr>), 5) \<and>
   addresses \<lparr>addresses = Some [''10.0.0.5''], canonicalName = None\<rparr> = Some [''10.0.0.5''] \<and>
   [''10.0.0.5''] \<noteq> [] \<and>
   strs_prop (dnsTrigger ''intranet'' [''192.168.0.0/16'', ''10.0.0.0/24'']) ''expectIPCIDR'' =
     Some [''192.168.0.0/16'', ''10.0.0.0/24''] \<and>
   [''192.168.0.0/16'', ''10.0.0.0/24''] \<noteq> [] \<and>
   str_prop (dnsTrigger ''intranet'' [''192.168.0.0/16'', ''10.0.0.0/24'']) ''matches'' \<noteq> Some ''exact''"
  by code_simp

lemma dns_run_exact:
  "dns_resolve (testEnv noReply)
     (str_prop (dnsExactTrigger ''intranet'' [''10.0.0.0/24'']) ''hostname'') 0 =
     (DnsResolved (Some \<lparr>addresses = Some [''10.0.0.5''], canonicalName = None\<rparr>), 5) \<and>
   strs_prop (dnsExactTrigger ''intranet'' [''10.0.0.0/24'']) ''expectIPCIDR'' = Some [''10.0.0.0/24''] \<and>
   str_prop (dnsExactTrigger ''intranet'' [''10.0.0.0/24'']) ''matches'' = Some ''exact''"
  by code_simp

theorem testDnsResolve_success_witness:
  "dns_resolve (testEnv noReply) (str_prop (dnsTrigger ''void'' []) ''hostname'') 0 =
     (DnsResolved (Some \<lparr>addresses = Some [], canonicalName = None\<rparr>), 5) \<and>
   \<not> success (fst (testDnsResolve (testEnv noReply) (dnsTrigger ''void'' []) 0)) \<and>
   strs_prop (dnsTrigger ''intranet'' [''192.168.0.0/16'', ''10.0.0.0/24'']) ''expectIPCIDR'' =
     Some [''192.168.0.0/16'', ''10.0.0.0/24''] \<and>
   success (fst (testDnsResolve (testEnv noReply)
      (dnsTrigger ''intranet'' [''192.168.0.0/16'', ''10.0.0.0/24'']) 0)) =
     (\<exists>address \<in> set [''10.0.0.5'']. \<exists>cidr \<in> set [''192.168.0.0/16'', ''10.0.0.0/24''].
        isIPInCIDR (PStr address) (PStr cidr) = Inr True) \<and>
   str_prop (dnsExactTrigger ''intranet'' [''10.0.0.0/24'']) ''matches'' = Some ''exact'' \<and>
   success (fst (testDnsResolve (testEnv noReply) (dnsExactTrigger ''intranet'' [''10.0.0.0/24'']) 0)) =
     (\<exists>address \<in> set [''10.0.0.5'']. address \<in> set [''10.0.0.0/24''])"
  using
    testDnsResolve_success [where e = "testEnv noReply" and t = "dnsTrigger ''void'' []" and w = 0
      and outcome = "DnsResolved (Some \<lparr>addresses = Some [], canonicalName = None\<rparr>)" and ?w1.0 = 5
      and rcd = "\<lparr>addresses = Some [], canonicalName = None\<rparr>"]
    testDnsResolve_success [where e = "testEnv noReply"
      and t = "dnsTrigger ''intranet'' [''192.168.0.0/16'', ''10.0.0.0/24'']" and w = 0 and ?w1.0 = 5
      and rcd = "\<lparr>addresses = Some [''10.0.0.5''], canonicalName = None\<rparr>"
      and addrs = "[''10.0.0.5'']" and cidrs = "[''192.168.0.0/16'', ''10.0.0.0/24'']"]
    testDnsResolve_success [where e = "testEnv noReply"
      and t = "dnsExactTrigger ''intranet'' [''10.0.0.0/24'']" and w = 0 and ?w1.0 = 5
      and rcd = "\<lparr>addresses = Some [''10.0.0.5''], canonicalName = None\<rparr>"
      and addrs = "[''10.0.0.5'']" and cidrs = "[''10.0.0.0/24'']"]
    dns_run_void dns_run_cidr dns_run_exact
  by simp

text \<open>
  The claim as stated fails on an empty \<open>expectIPCIDR\<close> list: the list is given, no
  resolved address lies in a listed range, and the probe succeeds.
\<close>

theorem testDnsResolve_empty_list_counterexample:
  "strs_prop (dnsTrigger ''intranet'' []) ''expectIPCIDR'' = Some [] \<and>
   dns_resolve (testEnv noReply) (str_prop (dnsTrigger ''intranet'' []) ''hostname'') 0 =
     (DnsResolved (Some \<lparr>addresses = Some [''10.0.0.5''], canonicalName = None\<rparr>), 5) \<and>
   \<not> checkIPInCIDRRanges [''10.0.0.5''] [] \<and>
   success (fst (testDnsResolve (testEnv noReply) (dnsTrigger ''intranet'' []) 0))"
  by code_simp

section \<open>The IP information probe\<close>

lemma testIpInfo_ok:
  "fetch e (Some (or_str (str_prop t ''providerUrl'') ''https://ipinfo.io/json''))
     \<lparr>request_method = None, redirect = None\<rparr> w = (FetchResolved rsp, w1) \<Longrightarrow>
   ok rsp \<Longrightarrow> json rsp = Inr d \<Longrightarrow>
   success (fst (testIpInfo e t w)) =
     ((\<forall>expectOrg dataOrg. str_prop t ''expectOrg'' = Some expectOrg \<and> expectOrg \<noteq> [] \<and>
          org d = Some dataOrg \<and> dataOrg \<noteq> [] \<longrightarrow>
          str_includes (toLowerCase dataOrg) (toLowerCase expectOrg)) \<and>
      (\<forall>expectCountry dataCountry. str_prop t ''expectCountry'' = Some expectCountry \<and>
          expectCountry \<noteq> [] \<and> country d = Some dataCountry \<and> dataCountry \<noteq> [] \<longrightarrow>
          toLowerCase dataCountry = toLowerCase expectCountry))"
  by (auto simp: testIpInfo_def Let_def split: option.splits)

lemma testIpInfo_failed:
  "fetch e (Some (or_str (str_prop t ''providerUrl'') ''https://ipinfo.io/json''))
     \<lparr>request_method = None, redirect = None\<rparr> w = (outcome, w1) \<Longrightarrow>
   outcome = FetchRejected msg \<or> outcome = FetchResolved rsp \<and> (\<not> ok rsp \<or> json rsp = Inl msg) \<Longrightarrow>
   \<not> success (fst (testIpInfo e t w))"
  by (auto simp: testIpInfo_def Let_def failure_def split: if_splits)

text \<open>
  Claim C7, as the code has it. When the provider's reply is fetched with an OK status
  and parses, \<open>testIpInfo\<close> reports success iff: when \<open>expectOrg\<close> is given (and not empty)
  and the reply has a non-empty \<open>org\<close> field, \<open>expectOrg\<close> occurs in it as a substring,
  case-insensitively; and when \<open>expectCountry\<close> is given (and not empty) and the reply
  has a non-empty \<open>country\<close> field, the two are equal case-insensitively. A condition
  whose expectation is absent, or whose field the reply lacks, is vacuously true. A
  rejected fetch, a non-OK status and a reply that does not parse give success:false.
\<close>

theorem testIpInfo_success:
  "(fetch e (Some (or_str (str_prop t ''providerUrl'') ''https://ipinfo.io/json''))
      \<lparr>request_method = None, redirect = None\<rparr> w = (FetchResolved rsp, w1) \<and>
    ok rsp \<and> json rsp = Inr d \<longrightarrow>
      success (fst (testIpInfo e t w)) =
        ((\<forall>expectOrg dataOrg. str_prop t ''expectOrg'' = Some expectOrg \<and> expectOrg \<noteq> [] \<and>
             org d = Some dataOrg \<and> dataOrg \<noteq> [] \<longrightarrow>
             str_includes (toLowerCase dataOrg) (toLowerCase expectOrg)) \<and>
         (\<forall>expectCountry dataCountry. str_prop t ''expectCountry'' = Some expectCountry \<and>
             expectCountry \<noteq> [] \<and> country d = Some dataCountry \<and> dataCountry \<noteq> [] \<longrightarrow>
             toLowerCase dataCountry = toLowerCase expectCountry))) \<and>
   (fetch e (Some (or_str (str_prop t ''providerUrl'') ''https://ipinfo.io/json''))
      \<lparr>request_method = None, redirect = None\<rparr> w = (outcome, w1) \<and>
    (outcome = FetchRejected msg \<or>
     outcome = FetchResolved rsp \<and> (\<not> ok rsp \<or> json rsp = Inl msg)) \<longrightarrow>
      \<not> success (fst (testIpInfo e t w)))"
  using testIpInfo_ok [of e t w rsp w1 d] testIpInfo_failed [of e t w outcome w1 msg rsp]
  by blast

lemma ipinfo_run_fetch:
  "fetch (testEnv reply) (Some (or_str (str_prop orgTrigger ''providerUrl'') ''https://ipinfo.io/json''))
     \<lparr>request_method = None, redirect = None\<rparr> 0 =
     (FetchResolved \<lparr>status = 200, statusText = ''OK'', ok = True, json = Inr reply\<rparr>, 5)"
  by (simp add: testEnv_def orgTrigger_def str_prop_def getProp_def or_str_def)

lemma ipinfo_run_down:
  "fetch (testEnv noReply) (Some (or_str (str_prop [(''providerUrl'', PStr ''http://geo'')] ''providerUrl'')
       ''https://ipinfo.io/json'')) \<lparr>request_method = None, redirect = None\<rparr> 0 =
     (FetchRejected ''NetworkError when attempting to fetch resource.'', 5)"
  by code_simp

lemma ipinfo_run_success:
  "success (fst (testIpInfo (testEnv \<lparr>org = Some ''AS64500 ACME Networks'', country = Some ''us''\<rparr>)
      orgTrigger 0)) \<and>
   \<not> success (fst (testIpInfo (testEnv \<lparr>org = Some ''AS64500 ACME Networks'', country = Some ''DE''\<rparr>)
      orgTrigger 0)) \<and>
   str_includes (toLowerCase ''AS64500 ACME Networks'') (toLowerCase ''Acme'')"
  by code_simp

theorem testIpInfo_success_witness:
  "fetch (testEnv \<lparr>org = Some ''AS64500 ACME Networks'', country = Some ''us''\<rparr>)
     (Some (or_str (str_prop orgTrigger ''providerUrl'') ''https://ipinfo.io/json''))
     \<lparr>request_method = None, redirect = None\<rparr> 0 =
     (FetchResolved \<lparr>status = 200, statusText = ''OK'', ok = True,
        json = Inr \<lparr>org = Some ''AS64500 ACME Networks'', country = Some ''us''\<rparr>\<rparr>, 5) \<and>
   success (fst (testIpInfo (testEnv \<lparr>org = Some ''AS64500 ACME Networks'', country = Some ''us''\<rparr>)
      orgTrigger 0)) \<and>
   str_includes (toLowerCase ''AS64500 ACME Networks'') (toLowerCase ''Acme'') \<and>
   fetch (testEnv noReply) (Some (or_str (str_prop [(''providerUrl'', PStr ''http://geo'')] ''providerUrl'')
       ''https://ipinfo.io/json'')) \<lparr>request_method = None, redirect = None\<rparr> 0 =
     (FetchRejected ''NetworkError when attempting to fetch resource.'', 5) \<and>
   \<not> success (fst (testIpInfo (testEnv noReply) [(''providerUrl'', PStr ''http://geo'')] 0))"
  using
    testIpInfo_success [where e = "testEnv \<lparr>org = Some ''AS64500 ACME Networks'', country = Some ''us''\<rparr>"
      and t = orgTrigger and w = 0 and ?w1.0 = 5
      and rsp = "\<lparr>status = 200, statusText = ''OK'', ok = True,
        json = Inr \<lparr>org = Some ''AS64500 ACME Networks'', country = Some ''us''\<rparr>\<rparr>"
      and d = "\<lparr>org = Some ''AS64500 ACME Networks'', country = Some ''us''\<rparr>"]
    testIpInfo_success [where e = "testEnv noReply" and t = "[(''providerUrl'', PStr ''http://geo'')]"
      and w = 0 and ?w1.0 = 5
      and outcome = "FetchRejected ''NetworkError when attempting to fetch resource.''"
      and msg = "''NetworkError when attempting to fetch resource.''"]
    ipinfo_run_fetch [of "\<lparr>org = Some ''AS64500 ACME Networks'', country = Some ''us''\<rparr>"]
    ipinfo_run_down ipinfo_run_success
  by simp

text \<open>
  The claim as stated fails when the reply has no \<open>org\<close> field, or an empty one:
  \<open>expectOrg\<close> is given and does not occur in the returned field, and the probe succeeds.
\<close>

theorem testIpInfo_missing_org_counterexample:
  "str_prop orgTrigger ''expectOrg'' = Some ''Acme'' \<and>
   org noReply = None \<and>
   success (fst (testIpInfo (testEnv noReply) orgTrigger 0)) \<and>
   \<not> str_includes (toLowerCase '''') (toLowerCase ''Acme'') \<and>
   success (fst (testIpInfo (testEnv \<lparr>org = Some '''', country = Some ''''\<rparr>) orgTrigger 0))"
  by code_simp

section \<open>The probe cache\<close>

lemma map_of_obj_set: "map_of (obj_set k v obj) k' = (if k' = k then Some v else map_of obj k')"
  by (simp add: obj_set_def update_conv')

lemma keys_obj_set: "fst ` set (obj_set k v obj) = insert k (fst ` set obj)"
  by (simp add: obj_set_def dom_update)

lemma probeSwitch_known:
  "triggerType \<in> set triggerTypes \<Longrightarrow> \<exists>r w1. probeSwitch e triggerType t w = (Inr r, w1)"
  by (auto simp: triggerTypes_def probeSwitch_def map_prod_def split: prod.splits)

lemma probeSwitch_unknown:
  "triggerType \<notin> set triggerTypes \<Longrightarrow>
   probeSwitch e triggerType t w = (Inl (''Unknown trigger type: '' @ triggerType), w)"
  by (simp add: triggerTypes_def probeSwitch_def)

lemma cached_entry_None:
  "cached_entry e key st = None \<longleftrightarrow>
   (map_of (probeCache st) key = None \<or>
    (\<exists>c. map_of (probeCache st) key = Some c \<and> expiry c \<le> Date_now e (world st)))"
  by (auto simp: cached_entry_def split: option.splits)

lemma getProbeResult_hit:
  "enableCache options \<Longrightarrow> map_of (probeCache st) (cacheKey triggerType t) = Some c \<Longrightarrow>
   expiry c > Date_now e (world st) \<Longrightarrow>
   getProbeResult e triggerType t options st = (Inr (result c), st)"
  by (simp add: getProbeResult_def cached_entry_def)

lemma getProbeResult_miss:
  "enableCache options \<Longrightarrow> cached_entry e (cacheKey triggerType t) st = None \<Longrightarrow>
   probeSwitch e triggerType t (world st) = (Inr r, w1) \<Longrightarrow>
   getProbeResult e triggerType t options st =
     (Inr r, \<lparr>probeCache = obj_set (cacheKey triggerType t)
                 \<lparr>result = r, expiry = Date_now e w1 + cacheTimeout options\<rparr> (probeCache st),
              world = w1\<rparr>)"
  by (simp add: getProbeResult_def)

lemma map_of_delete_all:
  "map_of (foldl (\<lambda>c k. AList.delete k c) c ks) key = (if key \<in> set ks then None else map_of c key)"
  by (induction ks arbitrary: c) (auto simp: delete_conv')

lemma cleanExpiredCache_keeps:
  assumes "distinct (map fst (probeCache st))"
  shows "map_of (probeCache (cleanExpiredCache e st)) key =
     (case map_of (probeCache st) key of
        Some c \<Rightarrow> if expiry c \<le> Date_now e (world st) then None else Some c
      | None \<Rightarrow> None)"
proof (cases "map_of (probeCache st) key")
  case None
  then show ?thesis by (simp add: cleanExpiredCache_def Let_def map_of_delete_all)
next
  case (Some c)
  with assms have "\<And>c'. (key, c') \<in> set (probeCache st) \<longleftrightarrow> c' = c"
    by (metis map_of_is_SomeI map_of_SomeD option.inject)
  then have "key \<in> fst ` {kv \<in> set (probeCache st). expiry (snd kv) \<le> Date_now e (world st)}
     \<longleftrightarrow> expiry c \<le> Date_now e (world st)"
    by force
  with Some show ?thesis by (simp add: cleanExpiredCache_def Let_def map_of_delete_all)
qed

lemma cached_entry_sweep:
  "distinct (map fst (probeCache st)) \<Longrightarrow>
   cached_entry e key (cleanExpiredCache e st) = cached_entry e key st"
proof -
  assume d: "distinct (map fst (probeCache st))"
  have w: "world (cleanExpiredCache e st) = world st" by (simp add: cleanExpiredCache_def Let_def)
  show ?thesis
    unfolding cached_entry_def cleanExpiredCache_keeps [OF d] w
    by (auto split: option.splits)
qed

lemma getProbeResult_sweep:
  "distinct (map fst (probeCache st)) \<Longrightarrow>
   fst (getProbeResult e triggerType t options (cleanExpiredCache e st)) =
   fst (getProbeResult e triggerType t options st)"
proof -
  assume d: "distinct (map fst (probeCache st))"
  have w: "world (cleanExpiredCache e st) = world st" by (simp add: cleanExpiredCache_def Let_def)
  show ?thesis
    unfolding getProbeResult_def Let_def cached_entry_sweep [OF d] w
    by (auto split: option.splits prod.splits sum.splits)
qed

text \<open>
  Claim C4. With caching enabled: if the cache holds an entry for the trigger's key whose
  expiry is strictly after the current time, \<open>getProbeResult\<close> returns the cached result
  and leaves the engine and the world as they are (no probe runs: every probe goes
  through the world). If there is no entry, or the entry's expiry is not after the
  current time, it runs the probe, stores the result with expiry \<open>now + cacheTimeout\<close>
  (\<open>now\<close> read after the probe) and returns the fresh result. Each of the six trigger
  types has a probe that returns. Sweeping expired entries first does not change what is
  returned. The defaults enable the cache with a timeout of 60000 ms.
\<close>

theorem getProbeResult_cache:
  "enableCache options \<longrightarrow>
   (map_of (probeCache st) (cacheKey triggerType t) = Some c \<and> expiry c > Date_now e (world st) \<longrightarrow>
      getProbeResult e triggerType t options st = (Inr (result c), st)) \<and>
   ((map_of (probeCache st) (cacheKey triggerType t) = None \<or>
     (map_of (probeCache st) (cacheKey triggerType t) = Some c \<and> expiry c \<le> Date_now e (world st))) \<and>
    probeSwitch e triggerType t (world st) = (Inr r, w1) \<longrightarrow>
      getProbeResult e triggerType t options st =
        (Inr r, \<lparr>probeCache = obj_set (cacheKey triggerType t)
                    \<lparr>result = r, expiry = Date_now e w1 + cacheTimeout options\<rparr> (probeCache st),
                 world = w1\<rparr>) \<and>
      map_of (probeCache (snd (getProbeResult e triggerType t options st))) (cacheKey triggerType t) =
        Some \<lparr>result = r, expiry = Date_now e w1 + cacheTimeout options\<rparr>) \<and>
   (triggerType \<in> set triggerTypes \<longrightarrow> (\<exists>r w1. probeSwitch e triggerType t (world st) = (Inr r, w1))) \<and>
   (distinct (map fst (probeCache st)) \<longrightarrow>
      fst (getProbeResult e triggerType t options (cleanExpiredCache e st)) =
      fst (getProbeResult e triggerType t options st)) \<and>
   enableCache DEFAULT_OPTIONS \<and> cacheTimeout DEFAULT_OPTIONS = 60000"
proof (intro impI conjI)
  assume en: "enableCache options"
  {
    assume "map_of (probeCache st) (cacheKey triggerType t) = Some c \<and> expiry c > Date_now e (world st)"
    then show "getProbeResult e triggerType t options st = (Inr (result c), st)"
      using en by (simp add: getProbeResult_hit)
  }
  {
    assume h: "(map_of (probeCache st) (cacheKey triggerType t) = None \<or>
       (map_of (probeCache st) (cacheKey triggerType t) = Some c \<and> expiry c \<le> Date_now e (world st))) \<and>
      probeSwitch e triggerType t (world st) = (Inr r, w1)"
    then have "cached_entry e (cacheKey triggerType t) st = None"
      by (auto simp: cached_entry_None)
    with h en have g: "getProbeResult e triggerType t options st =
        (Inr r, \<lparr>probeCache = obj_set (cacheKey triggerType t)
                    \<lparr>result = r, expiry = Date_now e w1 + cacheTimeout options\<rparr> (probeCache st),
                 world = w1\<rparr>)"
      by (simp add: getProbeResult_miss)
    then show "getProbeResult e triggerType t options st =
        (Inr r, \<lparr>probeCache = obj_set (cacheKey triggerType t)
                    \<lparr>result = r, expiry = Date_now e w1 + cacheTimeout options\<rparr> (probeCache st),
                 world = w1\<rparr>)" .
    from g show "map_of (probeCache (snd (getProbeResult e triggerType t options st)))
        (cacheKey triggerType t) = Some \<lparr>result = r, expiry = Date_now e w1 + cacheTimeout options\<rparr>"
      by (simp add: map_of_obj_set)
  }
  show "triggerType \<in> set triggerTypes \<Longrightarrow> \<exists>r w1. probeSwitch e triggerType t (world st) = (Inr r, w1)"
    by (rule probeSwitch_known)
  show "distinct (map fst (probeCache st)) \<Longrightarrow>
      fst (getProbeResult e triggerType t options (cleanExpiredCache e st)) =
      fst (getProbeResult e triggerType t options st)"
    by (rule getProbeResult_sweep)
  show "enableCache DEFAULT_OPTIONS" "cacheTimeout DEFAULT_OPTIONS = 60000"
    by (simp_all add: DEFAULT_OPTIONS_def)
qed

lemma warm_run:
  "enableCache DEFAULT_OPTIONS \<and>
   map_of (probeCache (warmState 61004)) (cacheKey ''reachability'' reachUrlFirst) =
     Some \<lparr>result = failedFetch, expiry = 61005\<rparr> \<and>
   expiry \<lparr>result = failedFetch, expiry = 61005\<rparr> > Date_now (testEnv noReply) (world (warmState 61004)) \<and>
   map_of (probeCache (warmState 61005)) (cacheKey ''reachability'' reachUrlFirst) =
     Some \<lparr>result = failedFetch, expiry = 61005\<rparr> \<and>
   expiry \<lparr>result = failedFetch, expiry = 61005\<rparr> \<le> Date_now (testEnv noReply) (world (warmState 61005)) \<and>
   probeSwitch (testEnv noReply) ''reachability'' reachUrlFirst (world (warmState 61005)) =
     (Inr (failure ''NetworkError when attempting to fetch resource.'' 61010), 61010) \<and>
   ''reachability'' \<in> set triggerTypes \<and>
   distinct (map fst (probeCache (warmState 61005))) \<and>
   result \<lparr>result = failedFetch, expiry = 61005\<rparr> = failedFetch \<and>
   Date_now (testEnv noReply) 61010 + cacheTimeout DEFAULT_OPTIONS = 121010"
  by code_simp

theorem getProbeResult_cache_witness:
  "enableCache DEFAULT_OPTIONS \<and>
   map_of (probeCache (warmState 61004)) (cacheKey ''reachability'' reachUrlFirst) =
     Some \<lparr>result = failedFetch, expiry = 61005\<rparr> \<and>
   expiry \<lparr>result = failedFetch, expiry = 61005\<rparr> > Date_now (testEnv noReply) (world (warmState 61004)) \<and>
   getProbeResult (testEnv noReply) ''reachability'' reachUrlFirst DEFAULT_OPTIONS (warmState 61004) =
     (Inr failedFetch, warmState 61004) \<and>
   expiry \<lparr>result = failedFetch, expiry = 61005\<rparr> \<le> Date_now (testEnv noReply) (world (warmState 61005)) \<and>
   probeSwitch (testEnv noReply) ''reachability'' reachUrlFirst (world (warmState 61005)) =
     (Inr (failure ''NetworkError when attempting to fetch resource.'' 61010), 61010) \<and>
   map_of (probeCache (snd (getProbeResult (testEnv noReply) ''reachability'' reachUrlFirst
       DEFAULT_OPTIONS (warmState 61005)))) (cacheKey ''reachability'' reachUrlFirst) =
     Some \<lparr>result = failure ''NetworkError when attempting to fetch resource.'' 61010, expiry = 121010\<rparr> \<and>
   ''reachability'' \<in> set triggerTypes \<and>
   distinct (map fst (probeCache (warmState 61005))) \<and>
   fst (getProbeResult (testEnv noReply) ''reachability'' reachUrlFirst DEFAULT_OPTIONS
     (cleanExpiredCache (testEnv noReply) (warmState 61005))) =
   fst (getProbeResult (testEnv noReply) ''reachability'' reachUrlFirst DEFAULT_OPTIONS (warmState 61005))"
  using
    getProbeResult_cache [where options = DEFAULT_OPTIONS and st = "warmState 61004"
      and triggerType = "''reachability''" and t = reachUrlFirst and e = "testEnv noReply"
      and c = "\<lparr>result = failedFetch, expiry = 61005\<rparr>"]
    getProbeResult_cache [where options = DEFAULT_OPTIONS and st = "warmState 61005"
      and triggerType = "''reachability''" and t = reachUrlFirst and e = "testEnv noReply"
      and c = "\<lparr>result = failedFetch, expiry = 61005\<rparr>"
      and r = "failure ''NetworkError when attempting to fetch resource.'' 61010" and ?w1.0 = 61010]
    warm_run
  by (simp add: map_of_obj_set)

text \<open>
  Claim C10. With caching enabled, a freshly executed result is stored with expiry
  \<open>now + cacheTimeout\<close> also when its \<open>success\<close> is false; in every later state of the
  engine that still holds the entry and whose clock is before the expiry,
  \<open>getProbeResult\<close> returns that failed result and leaves the engine and the world as
  they are (no probe runs); from the expiry on, the probe runs again.
\<close>

theorem getProbeResult_caches_failures:
  "enableCache options \<and> cached_entry e (cacheKey triggerType t) st = None \<and>
   probeSwitch e triggerType t (world st) = (Inr r, w1) \<and> \<not> success r \<longrightarrow>
     map_of (probeCache (snd (getProbeResult e triggerType t options st))) (cacheKey triggerType t) =
       Some \<lparr>result = r, expiry = Date_now e w1 + cacheTimeout options\<rparr> \<and>
     (map_of (probeCache st2) (cacheKey triggerType t) =
        Some \<lparr>result = r, expiry = Date_now e w1 + cacheTimeout options\<rparr> \<and>
      Date_now e (world st2) < Date_now e w1 + cacheTimeout options \<longrightarrow>
        getProbeResult e triggerType t options st2 = (Inr r, st2)) \<and>
     (map_of (probeCache st2) (cacheKey triggerType t) =
        Some \<lparr>result = r, expiry = Date_now e w1 + cacheTimeout options\<rparr> \<and>
      Date_now e w1 + cacheTimeout options \<le> Date_now e (world st2) \<and>
      probeSwitch e triggerType t (world st2) = (Inr r2, w3) \<longrightarrow>
        fst (getProbeResult e triggerType t options st2) = Inr r2 \<and>
        world (snd (getProbeResult e triggerType t options st2)) = w3)"
proof (intro impI conjI)
  assume h: "enableCache options \<and> cached_entry e (cacheKey triggerType t) st = None \<and>
    probeSwitch e triggerType t (world st) = (Inr r, w1) \<and> \<not> success r"
  then have "getProbeResult e triggerType t options st =
     (Inr r, \<lparr>probeCache = obj_set (cacheKey triggerType t)
                 \<lparr>result = r, expiry = Date_now e w1 + cacheTimeout options\<rparr> (probeCache st),
              world = w1\<rparr>)"
    by (simp add: getProbeResult_miss)
  then show "map_of (probeCache (snd (getProbeResult e triggerType t options st)))
      (cacheKey triggerType t) = Some \<lparr>result = r, expiry = Date_now e w1 + cacheTimeout options\<rparr>"
    by (simp add: map_of_obj_set)
  {
    assume "map_of (probeCache st2) (cacheKey triggerType t) =
        Some \<lparr>result = r, expiry = Date_now e w1 + cacheTimeout options\<rparr> \<and>
      Date_now e (world st2) < Date_now e w1 + cacheTimeout options"
    with h show "getProbeResult e triggerType t options st2 = (Inr r, st2)"
      using getProbeResult_hit [of options st2 triggerType t
          "\<lparr>result = r, expiry = Date_now e w1 + cacheTimeout options\<rparr>" e]
      by simp
  }
  {
    assume a: "map_of (probeCache st2) (cacheKey triggerType t) =
        Some \<lparr>result = r, expiry = Date_now e w1 + cacheTimeout options\<rparr> \<and>
      Date_now e w1 + cacheTimeout options \<le> Date_now e (world st2) \<and>
      probeSwitch e triggerType t (world st2) = (Inr r2, w3)"
    then have "cached_entry e (cacheKey triggerType t) st2 = None"
      by (simp add: cached_entry_def)
    with a h have g: "getProbeResult e triggerType t options st2 =
       (Inr r2, \<lparr>probeCache = obj_set (cacheKey triggerType t)
                   \<lparr>result = r2, expiry = Date_now e w3 + cacheTimeout options\<rparr> (probeCache st2),
                world = w3\<rparr>)"
      by (simp add: getProbeResult_miss)
    from g show "fst (getProbeResult e triggerType t options st2) = Inr r2" by simp
    from g show "world (snd (getProbeResult e triggerType t options st2)) = w3" by simp
  }
qed

lemma cold_run:
  "enableCache DEFAULT_OPTIONS \<and>
   cached_entry (testEnv noReply) (cacheKey ''reachability'' reachUrlFirst) (startState 1000) = None \<and>
   probeSwitch (testEnv noReply) ''reachability'' reachUrlFirst (world (startState 1000)) =
     (Inr failedFetch, 1005) \<and>
   \<not> success failedFetch \<and>
   Date_now (testEnv noReply) 1005 + cacheTimeout DEFAULT_OPTIONS = 61005 \<and>
   snd (getProbeResult (testEnv noReply) ''reachability'' reachUrlFirst DEFAULT_OPTIONS
     (startState 1000)) = warmState 1005 \<and>
   map_of (probeCache (warmState 61004)) (cacheKey ''reachability'' reachUrlFirst) =
     Some \<lparr>result = failedFetch, expiry = 61005\<rparr> \<and>
   Date_now (testEnv noReply) (world (warmState 61004)) < 61005 \<and>
   map_of (probeCache (warmState 61005)) (cacheKey ''reachability'' reachUrlFirst) =
     Some \<lparr>result = failedFetch, expiry = 61005\<rparr> \<and>
   61005 \<le> Date_now (testEnv noReply) (world (warmState 61005)) \<and>
   probeSwitch (testEnv noReply) ''reachability'' reachUrlFirst (world (warmState 61005)) =
     (Inr (failure ''NetworkError when attempting to fetch resource.'' 61010), 61010)"
  by code_simp

theorem getProbeResult_caches_failures_witness:
  "enableCache DEFAULT_OPTIONS \<and>
   cached_entry (testEnv noReply) (cacheKey ''reachability'' reachUrlFirst) (startState 1000) = None \<and>
   probeSwitch (testEnv noReply) ''reachability'' reachUrlFirst (world (startState 1000)) =
     (Inr failedFetch, 1005) \<and>
   \<not> success failedFetch \<and>
   snd (getProbeResult (testEnv noReply) ''reachability'' reachUrlFirst DEFAULT_OPTIONS
     (startState 1000)) = warmState 1005 \<and>
   map_of (probeCache (warmState 1005)) (cacheKey ''reachability'' reachUrlFirst) =
     Some \<lparr>result = failedFetch, expiry = 61005\<rparr> \<and>
   getProbeResult (testEnv noReply) ''reachability'' reachUrlFirst DEFAULT_OPTIONS (warmState 61004) =
     (Inr failedFetch, warmState 61004) \<and>
   fst (getProbeResult (testEnv noReply) ''reachability'' reachUrlFirst DEFAULT_OPTIONS
     (warmState 61005)) = Inr (failure ''NetworkError when attempting to fetch resource.'' 61010) \<and>
   world (snd (getProbeResult (testEnv noReply) ''reachability'' reachUrlFirst DEFAULT_OPTIONS
     (warmState 61005))) = 61010"
  using
    getProbeResult_caches_failures [where options = DEFAULT_OPTIONS and e = "testEnv noReply"
      and triggerType = "''reachability''" and t = reachUrlFirst and st = "startState 1000"
      and r = failedFetch and ?w1.0 = 1005 and ?st2.0 = "warmState 61004"]
    getProbeResult_caches_failures [where options = DEFAULT_OPTIONS and e = "testEnv noReply"
      and triggerType = "''reachability''" and t = reachUrlFirst and st = "startState 1000"
      and r = failedFetch and ?w1.0 = 1005 and ?st2.0 = "warmState 61005"
      and ?r2.0 = "failure ''NetworkError when attempting to fetch resource.'' 61010" and ?w3.0 = 61010]
    cold_run
  by simp

section \<open>Evaluating one rule\<close>

lemma spread_as_options: "spread_options base (as_options opts) = opts"
  by (simp add: spread_options_def as_options_def)

lemma spread_Nil: "spread a [] = a"
  by (simp add: spread_def)

lemma evaluateTriggers_absent:
  "trigger_of whn k = None \<Longrightarrow>
   evaluateTriggers e rl whn opts (k # ks) (m, res, st) = evaluateTriggers e rl whn opts ks (m, res, st)"
  by simp

lemma evaluateTriggers_thrown:
  "trigger_of whn k = Some t \<Longrightarrow> getProbeResult e k t opts st = (Inl errorMessage, st1) \<Longrightarrow>
   evaluateTriggers e rl whn opts (k # ks) (m, res, st) =
     evaluateTriggers e rl whn opts ks
       (False, obj_set (probeKey rl k) (failure errorMessage (Date_now e (world st1))) res, st1)"
  by simp

lemma evaluateTriggers_present:
  assumes "trigger_of whn k = Some t"
  shows "\<exists>r st1. evaluateTriggers e rl whn opts (k # ks) (m, res, st) =
           evaluateTriggers e rl whn opts ks (m \<and> success r, obj_set (probeKey rl k) r res, st1)"
proof -
  obtain out st1 where g: "getProbeResult e k t opts st = (out, st1)"
    by (cases "getProbeResult e k t opts st")
  show ?thesis
  proof (cases out)
    case (Inl errorMessage)
    with assms g have "evaluateTriggers e rl whn opts (k # ks) (m, res, st) =
        evaluateTriggers e rl whn opts ks
          (m \<and> success (failure errorMessage (Date_now e (world st1))),
           obj_set (probeKey rl k) (failure errorMessage (Date_now e (world st1))) res, st1)"
      by (simp add: failure_def)
    then show ?thesis by blast
  next
    case (Inr r)
    with assms g have "evaluateTriggers e rl whn opts (k # ks) (m, res, st) =
        evaluateTriggers e rl whn opts ks (m \<and> success r, obj_set (probeKey rl k) r res, st1)"
      by auto
    then show ?thesis by blast
  qed
qed

lemma evaluateTriggers_keys:
  "evaluateTriggers e rl whn opts ks (m0, res0, st0) = (m, res, st) \<Longrightarrow>
   fst ` set res = fst ` set res0 \<union> {probeKey rl k |k. k \<in> set ks \<and> trigger_of whn k \<noteq> None}"
proof (induction ks arbitrary: m0 res0 st0)
  case Nil
  then show ?case by simp
next
  case (Cons k ks)
  show ?case
  proof (cases "trigger_of whn k")
    case None
    with Cons.prems have "evaluateTriggers e rl whn opts ks (m0, res0, st0) = (m, res, st)"
      by simp
    from Cons.IH [OF this] None show ?thesis by auto
  next
    case (Some t)
    from evaluateTriggers_present [OF Some] obtain r st1 where
      "evaluateTriggers e rl whn opts (k # ks) (m0, res0, st0) =
         evaluateTriggers e rl whn opts ks (m0 \<and> success r, obj_set (probeKey rl k) r res0, st1)"
      by blast
    with Cons.prems have "evaluateTriggers e rl whn opts ks
        (m0 \<and> success r, obj_set (probeKey rl k) r res0, st1) = (m, res, st)"
      by simp
    from Cons.IH [OF this] Some show ?thesis by (auto simp: keys_obj_set)
  qed
qed

lemma evaluateTriggers_other_keys:
  "evaluateTriggers e rl whn opts ks (m0, res0, st0) = (m, res, st) \<Longrightarrow>
   key \<notin> probeKey rl ` set ks \<Longrightarrow> map_of res key = map_of res0 key"
proof (induction ks arbitrary: m0 res0 st0)
  case Nil
  then show ?case by simp
next
  case (Cons k ks)
  from Cons.prems(2) have nk: "key \<noteq> probeKey rl k" and nks: "key \<notin> probeKey rl ` set ks"
    by auto
  show ?case
  proof (cases "trigger_of whn k")
    case None
    with Cons.prems have "evaluateTriggers e rl whn opts ks (m0, res0, st0) = (m, res, st)"
      by simp
    from Cons.IH [OF this nks] show ?thesis .
  next
    case (Some t)
    from evaluateTriggers_present [OF Some] obtain r st1 where
      "evaluateTriggers e rl whn opts (k # ks) (m0, res0, st0) =
         evaluateTriggers e rl whn opts ks (m0 \<and> success r, obj_set (probeKey rl k) r res0, st1)"
      by blast
    with Cons.prems have "evaluateTriggers e rl whn opts ks
        (m0 \<and> success r, obj_set (probeKey rl k) r res0, st1) = (m, res, st)"
      by simp
    from Cons.IH [OF this nks] nk show ?thesis by (simp add: map_of_obj_set)
  qed
qed

lemma evaluateTriggers_match:
  "evaluateTriggers e rl whn opts ks (m0, res0, st0) = (m, res, st) \<Longrightarrow> distinct ks \<Longrightarrow>
   m = (m0 \<and> (\<forall>k \<in> set ks. trigger_of whn k \<noteq> None \<longrightarrow>
                 (\<exists>r. map_of res (probeKey rl k) = Some r \<and> success r)))"
proof (induction ks arbitrary: m0 res0 st0)
  case Nil
  then show ?case by simp
next
  case (Cons k ks)
  from Cons.prems(2) have dk: "distinct ks" and nk: "probeKey rl k \<notin> probeKey rl ` set ks"
    by (auto simp: probeKey_def)
  show ?case
  proof (cases "trigger_of whn k")
    case None
    with Cons.prems have "evaluateTriggers e rl whn opts ks (m0, res0, st0) = (m, res, st)"
      by simp
    from Cons.IH [OF this dk] None show ?thesis by simp
  next
    case (Some t)
    from evaluateTriggers_present [OF Some] obtain r st1 where
      "evaluateTriggers e rl whn opts (k # ks) (m0, res0, st0) =
         evaluateTriggers e rl whn opts ks (m0 \<and> success r, obj_set (probeKey rl k) r res0, st1)"
      by blast
    with Cons.prems have run: "evaluateTriggers e rl whn opts ks
        (m0 \<and> success r, obj_set (probeKey rl k) r res0, st1) = (m, res, st)"
      by simp
    from evaluateTriggers_other_keys [OF run nk]
    have entry: "map_of res (probeKey rl k) = Some r" by (simp add: map_of_obj_set)
    from Cons.IH [OF run dk] entry Some show ?thesis by auto
  qed
qed

lemma evaluateRule_returns:
  "rule_when rl = Some whn \<Longrightarrow> \<exists>m res st1. evaluateRule e rl options st = (Inr (m, res), st1)"
  by (auto simp: evaluateRule_def Let_def split: prod.splits)

lemma evaluateRule_empty:
  "rule_when rl = Some [] \<Longrightarrow> evaluateRule e rl options st = (Inr (False, []), st)"
  by (simp add: evaluateRule_def)

lemma evaluateRule_results:
  assumes w: "rule_when rl = Some whn" and d: "distinct (map fst whn)"
    and run: "evaluateRule e rl options st = (Inr (m, res), st1)"
  shows "fst ` set res = {probeKey rl k |k. trigger_of whn k \<noteq> None}"
    and "m = (whn \<noteq> [] \<and> (\<forall>k. trigger_of whn k \<noteq> None \<longrightarrow>
                 (\<exists>r. map_of res (probeKey rl k) = Some r \<and> success r)))"
proof -
  have dom: "trigger_of whn k \<noteq> None \<Longrightarrow> k \<in> set (map fst whn)" for k
    by (auto simp: trigger_of_def split: option.splits dest: map_of_SomeD intro: rev_image_eqI)
  show "fst ` set res = {probeKey rl k |k. trigger_of whn k \<noteq> None}"
  proof (cases "whn = []")
    case True
    with w run show ?thesis by (simp add: evaluateRule_def trigger_of_def)
  next
    case False
    with w run have "evaluateTriggers e rl whn (spread_options DEFAULT_OPTIONS options)
        (map fst whn) (True, [], st) = (m, res, st1)"
      by (auto simp: evaluateRule_def Let_def split: prod.splits)
    from evaluateTriggers_keys [OF this] dom show ?thesis by auto
  qed
  show "m = (whn \<noteq> [] \<and> (\<forall>k. trigger_of whn k \<noteq> None \<longrightarrow>
                 (\<exists>r. map_of res (probeKey rl k) = Some r \<and> success r)))"
  proof (cases "whn = []")
    case True
    with w run show ?thesis by (simp add: evaluateRule_def)
  next
    case False
    with w run have "evaluateTriggers e rl whn (spread_options DEFAULT_OPTIONS options)
        (map fst whn) (True, [], st) = (m, res, st1)"
      by (auto simp: evaluateRule_def Let_def split: prod.splits)
    from evaluateTriggers_match [OF this d] dom False show ?thesis by blast
  qed
qed

lemma rulesLoop_empty_when:
  "rule_when rl = Some [] \<Longrightarrow>
   rulesLoop e opts startTime (rl # rest) allResults st = rulesLoop e opts startTime rest allResults st"
  by (simp add: evaluateRule_empty spread_Nil)

text \<open>
  Claim C2. For a rule with a \<^verbatim>\<open>when\<close> object (whose keys are distinct, as an object's
  keys are), \<open>evaluateRule\<close> returns, and: the keys of its results are exactly
  \<open><ruleId>_<triggerType>\<close> for the trigger types whose value is present (a trigger
  object, not \<^verbatim>\<open>undefined\<close>), so every present trigger is probed whatever the earlier ones
  gave; the entry of a probe that returned is its result, and the loop goes on to the
  remaining keys; the rule is reported as matched iff \<^verbatim>\<open>when\<close> has at least one key and the
  entry of every present trigger has success true. A rule whose \<^verbatim>\<open>when\<close> is empty does
  not match and the scan of \<open>evaluateRules\<close> passes over it.
\<close>

theorem evaluateRule_all_triggers:
  "(rule_when rl = Some whn \<and> distinct (map fst whn) \<longrightarrow>
      (\<exists>m res st1. evaluateRule e rl options st = (Inr (m, res), st1) \<and>
         fst ` set res = {probeKey rl k |k. trigger_of whn k \<noteq> None} \<and>
         m = (whn \<noteq> [] \<and> (\<forall>k. trigger_of whn k \<noteq> None \<longrightarrow>
                (\<exists>r. map_of res (probeKey rl k) = Some r \<and> success r))))) \<and>
   (trigger_of whn k = Some t \<and> getProbeResult e k t opts st = (Inr r, st1) \<longrightarrow>
      evaluateTriggers e rl whn opts (k # ks) (m0, res0, st) =
        evaluateTriggers e rl whn opts ks (m0 \<and> success r, obj_set (probeKey rl k) r res0, st1)) \<and>
   (rule_when rl = Some [] \<longrightarrow>
      evaluateRule e rl options st = (Inr (False, []), st) \<and>
      rulesLoop e opts startTime (rl # rest) allResults st =
        rulesLoop e opts startTime rest allResults st)"
proof (intro conjI impI)
  assume h: "rule_when rl = Some whn \<and> distinct (map fst whn)"
  then obtain m res st1 where run: "evaluateRule e rl options st = (Inr (m, res), st1)"
    using evaluateRule_returns by blast
  from h have w: "rule_when rl = Some whn" and d: "distinct (map fst whn)" by simp_all
  from evaluateRule_results [OF w d run] run
  show "\<exists>m res st1. evaluateRule e rl options st = (Inr (m, res), st1) \<and>
         fst ` set res = {probeKey rl k |k. trigger_of whn k \<noteq> None} \<and>
         m = (whn \<noteq> [] \<and> (\<forall>k. trigger_of whn k \<noteq> None \<longrightarrow>
                (\<exists>r. map_of res (probeKey rl k) = Some r \<and> success r)))"
    by blast
next
  assume "trigger_of whn k = Some t \<and> getProbeResult e k t opts st = (Inr r, st1)"
  then show "evaluateTriggers e rl whn opts (k # ks) (m0, res0, st) =
        evaluateTriggers e rl whn opts ks (m0 \<and> success r, obj_set (probeKey rl k) r res0, st1)"
    by auto
next
  assume "rule_when rl = Some []"
  then show "evaluateRule e rl options st = (Inr (False, []), st)"
    by (rule evaluateRule_empty)
next
  assume "rule_when rl = Some []"
  then show "rulesLoop e opts startTime (rl # rest) allResults st =
        rulesLoop e opts startTime rest allResults st"
    by (rule rulesLoop_empty_when)
qed

lemma two_trigger_run:
  "rule_when twoTriggerRule =
     Some [(''manualFlag'', Some [(''value'', PBool False)]),
           (''dnsResolve'', Some (dnsTrigger ''intranet'' [''10.0.0.0/24'']))] \<and>
   distinct (map fst [(''manualFlag'', Some [(''value'', PBool False)]),
                      (''dnsResolve'', Some (dnsTrigger ''intranet'' [''10.0.0.0/24'']))]) \<and>
   fst (evaluateRule (testEnv noReply) twoTriggerRule noOptions (startState 1000)) =
     Inr (False,
          [(''office_manualFlag'',
            \<lparr>success = False, error = None, data = Some (ManualFlagData (Some False)),
             timestamp = 1000\<rparr>),
           (''office_dnsResolve'',
            \<lparr>success = True, error = None, data = Some (DnsData [''10.0.0.5''] None),
             timestamp = 1005\<rparr>)]) \<and>
   trigger_of [(''manualFlag'', Some [(''value'', PBool False)]),
               (''dnsResolve'', Some (dnsTrigger ''intranet'' [''10.0.0.0/24'']))] ''manualFlag'' =
     Some [(''value'', PBool False)] \<and>
   fst (getProbeResult (testEnv noReply) ''manualFlag'' [(''value'', PBool False)] DEFAULT_OPTIONS
      (startState 1000)) =
     Inr \<lparr>success = False, error = None, data = Some (ManualFlagData (Some False)), timestamp = 1000\<rparr> \<and>
   rule_when emptyRule = Some []"
  by code_simp

theorem evaluateRule_all_triggers_witness:
  "rule_when twoTriggerRule =
     Some [(''manualFlag'', Some [(''value'', PBool False)]),
           (''dnsResolve'', Some (dnsTrigger ''intranet'' [''10.0.0.0/24'']))] \<and>
   distinct (map fst [(''manualFlag'', Some [(''value'', PBool False)]),
                      (''dnsResolve'', Some (dnsTrigger ''intranet'' [''10.0.0.0/24'']))]) \<and>
   (\<exists>m res st1.
      evaluateRule (testEnv noReply) twoTriggerRule noOptions (startState 1000) = (Inr (m, res), st1) \<and>
      fst ` set res =
        {probeKey twoTriggerRule k |k.
           trigger_of [(''manualFlag'', Some [(''value'', PBool False)]),
                       (''dnsResolve'', Some (dnsTrigger ''intranet'' [''10.0.0.0/24'']))] k \<noteq> None}) \<and>
   fst (evaluateRule (testEnv noReply) twoTriggerRule noOptions (startState 1000)) =
     Inr (False,
          [(''office_manualFlag'',
            \<lparr>success = False, error = None, data = Some (ManualFlagData (Some False)),
             timestamp = 1000\<rparr>),
           (''office_dnsResolve'',
            \<lparr>success = True, error = None, data = Some (DnsData [''10.0.0.5''] None),
             timestamp = 1005\<rparr>)]) \<and>
   rule_when emptyRule = Some [] \<and>
   evaluateRule (testEnv noReply) emptyRule noOptions (startState 1000) =
     (Inr (False, []), startState 1000) \<and>
   rulesLoop (testEnv noReply) DEFAULT_OPTIONS 1000 [emptyRule, flagRule ''b'' 50 True] []
     (startState 1000) =
   rulesLoop (testEnv noReply) DEFAULT_OPTIONS 1000 [flagRule ''b'' 50 True] [] (startState 1000)"
proof -
  have a: "rule_when twoTriggerRule =
      Some [(''manualFlag'', Some [(''value'', PBool False)]),
            (''dnsResolve'', Some (dnsTrigger ''intranet'' [''10.0.0.0/24'']))] \<and>
    distinct (map fst [(''manualFlag'', Some [(''value'', PBool False)]),
                       (''dnsResolve'', Some (dnsTrigger ''intranet'' [''10.0.0.0/24'']))])"
    using two_trigger_run by blast
  have b: "\<exists>m res st1.
      evaluateRule (testEnv noReply) twoTriggerRule noOptions (startState 1000) = (Inr (m, res), st1) \<and>
      fst ` set res =
        {probeKey twoTriggerRule k |k.
           trigger_of [(''manualFlag'', Some [(''value'', PBool False)]),
                       (''dnsResolve'', Some (dnsTrigger ''intranet'' [''10.0.0.0/24'']))] k \<noteq> None}"
    using evaluateRule_all_triggers [where rl = twoTriggerRule and e = "testEnv noReply"
      and options = noOptions and st = "startState 1000"
      and whn = "[(''manualFlag'', Some [(''value'', PBool False)]),
                  (''dnsResolve'', Some (dnsTrigger ''intranet'' [''10.0.0.0/24'']))]",
      THEN conjunct1, rule_format, OF a]
    by (elim exE conjE) (intro exI conjI, assumption+)
  have c: "rule_when emptyRule = Some []"
    using two_trigger_run by blast
  have d: "evaluateRule (testEnv noReply) emptyRule noOptions (startState 1000) =
      (Inr (False, []), startState 1000) \<and>
    rulesLoop (testEnv noReply) DEFAULT_OPTIONS 1000 [emptyRule, flagRule ''b'' 50 True] []
      (startState 1000) =
    rulesLoop (testEnv noReply) DEFAULT_OPTIONS 1000 [flagRule ''b'' 50 True] [] (startState 1000)"
    using evaluateRule_all_triggers [where rl = emptyRule and e = "testEnv noReply"
      and options = noOptions and st = "startState 1000" and opts = DEFAULT_OPTIONS
      and startTime = 1000 and rest = "[flagRule ''b'' 50 True]" and allResults = "[]",
      THEN conjunct2, THEN conjunct2, rule_format, OF c]
    by simp
  have f: "fst (evaluateRule (testEnv noReply) twoTriggerRule noOptions (startState 1000)) =
     Inr (False,
          [(''office_manualFlag'',
            \<lparr>success = False, error = None, data = Some (ManualFlagData (Some False)),
             timestamp = 1000\<rparr>),
           (''office_dnsResolve'',
            \<lparr>success = True, error = None, data = Some (DnsData [''10.0.0.5''] None),
             timestamp = 1005\<rparr>)])"
    using two_trigger_run by blast
  from a b c d f show ?thesis by (intro conjI) (simp_all only:)
qed

section \<open>Faults inside one rule\<close>

lemma evaluateTriggers_stays_False:
  "\<not> fst (evaluateTriggers e rl whn opts ks (False, res0, st))"
  by (induction ks arbitrary: res0 st) (auto split: option.splits prod.splits sum.splits)

lemma evaluateRule_no_when:
  "rule_when rl = None \<Longrightarrow> evaluateRule e rl options st = (Inl typeErrorMessage, st)"
  by (simp add: evaluateRule_def)

lemma rulesLoop_thrown:
  "evaluateRule e rl (as_options opts) st = (Inl errorMessage, st1) \<Longrightarrow>
   rulesLoop e opts startTime (rl # rest) allResults st =
     rulesLoop e opts startTime rest
       (obj_set (rule_id rl @ ''_error'')
          \<lparr>success = False, error = Some errorMessage, data = None,
           timestamp = Date_now e (world st1)\<rparr> allResults) st1"
  by (simp add: failure_def)

lemma rulesLoop_no_then:
  "evaluateRule e rl (as_options opts) st = (Inr (True, ruleResults), st1) \<Longrightarrow> rule_then rl = None \<Longrightarrow>
   rulesLoop e opts startTime (rl # rest) allResults st =
     rulesLoop e opts startTime rest
       (obj_set (rule_id rl @ ''_error'')
          \<lparr>success = False, error = Some typeErrorMessage, data = None,
           timestamp = Date_now e (world st1)\<rparr> (spread allResults ruleResults)) st1"
  by (simp add: failure_def)

lemma rulesLoop_not_matched:
  "evaluateRule e rl (as_options opts) st = (Inr (False, ruleResults), st1) \<Longrightarrow>
   rulesLoop e opts startTime (rl # rest) allResults st =
     rulesLoop e opts startTime rest (spread allResults ruleResults) st1"
  by simp

lemma rulesLoop_matched:
  "evaluateRule e rl (as_options opts) st = (Inr (True, ruleResults), st1) \<Longrightarrow>
   rule_then rl = Some action \<Longrightarrow>
   rulesLoop e opts startTime (rl # rest) allResults st =
     (\<lparr>matched = True, rule = Some rl, profileId = Some (setActiveProfile action),
       results = spread allResults ruleResults,
       evaluationTime = Date_now e (world st1) - startTime\<rparr>, st1)"
  by simp

text \<open>
  Claim C3, as the code has it. When \<open>evaluateRule\<close> throws on a rule (the rule object has
  no \<^verbatim>\<open>when\<close>), or the rule matched and the rule object has no \<^verbatim>\<open>then\<close>, \<open>evaluateRules\<close>
  records a failure entry keyed \<open><ruleId>_error\<close> with success false, does not return the
  rule, and goes on with the next rule. A trigger probe that throws does not make
  \<open>evaluateRule\<close> throw: on a rule with a \<^verbatim>\<open>when\<close> object \<open>evaluateRule\<close> always returns; the
  thrown error is recorded under \<open><ruleId>_<triggerType>\<close> with success false, the rule's
  match flag becomes false and stays false, the remaining triggers are evaluated, and
  \<open>evaluateRules\<close> goes on with the next rule as after any rule that did not match.
\<close>

theorem evaluateRules_fault_isolation:
  "(evaluateRule e rl (as_options opts) st = (Inl errorMessage, st1) \<longrightarrow>
      rulesLoop e opts startTime (rl # rest) allResults st =
        rulesLoop e opts startTime rest
          (obj_set (rule_id rl @ ''_error'')
             \<lparr>success = False, error = Some errorMessage, data = None,
              timestamp = Date_now e (world st1)\<rparr> allResults) st1) \<and>
   (evaluateRule e rl (as_options opts) st = (Inr (True, ruleResults), st1) \<and> rule_then rl = None \<longrightarrow>
      rulesLoop e opts startTime (rl # rest) allResults st =
        rulesLoop e opts startTime rest
          (obj_set (rule_id rl @ ''_error'')
             \<lparr>success = False, error = Some typeErrorMessage, data = None,
              timestamp = Date_now e (world st1)\<rparr> (spread allResults ruleResults)) st1) \<and>
   (rule_when rl = None \<longrightarrow> evaluateRule e rl options st = (Inl typeErrorMessage, st)) \<and>
   (rule_when rl = Some whn \<longrightarrow> (\<exists>m res st2. evaluateRule e rl options st = (Inr (m, res), st2))) \<and>
   (trigger_of whn k = Some t \<and> getProbeResult e k t opts st = (Inl errorMessage, st1) \<longrightarrow>
      evaluateTriggers e rl whn opts (k # ks) (m0, res0, st) =
        evaluateTriggers e rl whn opts ks
          (False,
           obj_set (probeKey rl k)
             \<lparr>success = False, error = Some errorMessage, data = None,
              timestamp = Date_now e (world st1)\<rparr> res0, st1)) \<and>
   \<not> fst (evaluateTriggers e rl whn opts ks (False, res0, st)) \<and>
   (evaluateRule e rl (as_options opts) st = (Inr (False, ruleResults), st1) \<longrightarrow>
      rulesLoop e opts startTime (rl # rest) allResults st =
        rulesLoop e opts startTime rest (spread allResults ruleResults) st1)"
  using rulesLoop_thrown [of e rl opts st errorMessage st1 startTime rest allResults]
    rulesLoop_no_then [of e rl opts st ruleResults st1 startTime rest allResults]
    evaluateRule_no_when [of rl e options st]
    evaluateRule_returns [of rl whn e options st]
    evaluateTriggers_thrown [of whn k t e opts st errorMessage st1 rl ks m0 res0]
    evaluateTriggers_stays_False [of e rl whn opts ks res0 st]
    rulesLoop_not_matched [of e rl opts st ruleResults st1 startTime rest allResults]
  unfolding failure_def
  by blast

lemma fault_run:
  "evaluateRule (testEnv noReply) brokenRule (as_options DEFAULT_OPTIONS) (startState 1000) =
     (Inl typeErrorMessage, startState 1000) \<and>
   rule_when brokenRule = None \<and>
   rule_when bogusRule = Some [(''bogus'', Some [])] \<and>
   trigger_of [(''bogus'', Some [])] ''bogus'' = Some [] \<and>
   getProbeResult (testEnv noReply) ''bogus'' [] DEFAULT_OPTIONS (startState 1000) =
     (Inl ''Unknown trigger type: bogus'', startState 1000) \<and>
   evaluateRule (testEnv noReply) bogusRule (as_options DEFAULT_OPTIONS) (startState 1000) =
     (Inr (False, [(''r1_bogus'', failure ''Unknown trigger type: bogus'' 1000)]), startState 1000) \<and>
   matched (fst (evaluateRules (testEnv noReply) [flagRule ''b'' 50 True, bogusRule, brokenRule]
      noOptions (startState 1000))) \<and>
   map_option rule_id (rule (fst (evaluateRules (testEnv noReply)
      [flagRule ''b'' 50 True, bogusRule, brokenRule] noOptions (startState 1000)))) = Some ''b'' \<and>
   map fst (results (fst (evaluateRules (testEnv noReply)
      [flagRule ''b'' 50 True, bogusRule, brokenRule] noOptions (startState 1000)))) =
     [''r0_error'', ''r1_bogus'', ''b_manualFlag'']"
  by code_simp

theorem evaluateRules_fault_isolation_witness:
  "evaluateRule (testEnv noReply) brokenRule (as_options DEFAULT_OPTIONS) (startState 1000) =
     (Inl typeErrorMessage, startState 1000) \<and>
   rulesLoop (testEnv noReply) DEFAULT_OPTIONS 1000 [brokenRule, flagRule ''b'' 50 True] []
     (startState 1000) =
   rulesLoop (testEnv noReply) DEFAULT_OPTIONS 1000 [flagRule ''b'' 50 True]
     (obj_set (rule_id brokenRule @ ''_error'')
        \<lparr>success = False, error = Some typeErrorMessage, data = None,
         timestamp = Date_now (testEnv noReply) (world (startState 1000))\<rparr> []) (startState 1000) \<and>
   trigger_of [(''bogus'', Some [])] ''bogus'' = Some [] \<and>
   getProbeResult (testEnv noReply) ''bogus'' [] DEFAULT_OPTIONS (startState 1000) =
     (Inl ''Unknown trigger type: bogus'', startState 1000) \<and>
   evaluateTriggers (testEnv noReply) bogusRule [(''bogus'', Some [])] DEFAULT_OPTIONS [''bogus'']
     (True, [], startState 1000) =
   evaluateTriggers (testEnv noReply) bogusRule [(''bogus'', Some [])] DEFAULT_OPTIONS []
     (False,
      obj_set (probeKey bogusRule ''bogus'')
        \<lparr>success = False, error = Some ''Unknown trigger type: bogus'', data = None,
         timestamp = Date_now (testEnv noReply) (world (startState 1000))\<rparr> [], startState 1000) \<and>
   evaluateRule (testEnv noReply) bogusRule (as_options DEFAULT_OPTIONS) (startState 1000) =
     (Inr (False, [(''r1_bogus'', failure ''Unknown trigger type: bogus'' 1000)]), startState 1000) \<and>
   rulesLoop (testEnv noReply) DEFAULT_OPTIONS 1000 [bogusRule, flagRule ''b'' 50 True] []
     (startState 1000) =
   rulesLoop (testEnv noReply) DEFAULT_OPTIONS 1000 [flagRule ''b'' 50 True]
     (spread [] [(''r1_bogus'', failure ''Unknown trigger type: bogus'' 1000)]) (startState 1000) \<and>
   matched (fst (evaluateRules (testEnv noReply) [flagRule ''b'' 50 True, bogusRule, brokenRule]
      noOptions (startState 1000))) \<and>
   map_option rule_id (rule (fst (evaluateRules (testEnv noReply)
      [flagRule ''b'' 50 True, bogusRule, brokenRule] noOptions (startState 1000)))) = Some ''b'' \<and>
   map fst (results (fst (evaluateRules (testEnv noReply)
      [flagRule ''b'' 50 True, bogusRule, brokenRule] noOptions (startState 1000)))) =
     [''r0_error'', ''r1_bogus'', ''b_manualFlag'']"
  using
    evaluateRules_fault_isolation [where e = "testEnv noReply" and rl = brokenRule
      and opts = DEFAULT_OPTIONS and st = "startState 1000" and errorMessage = typeErrorMessage
      and ?st1.0 = "startState 1000" and startTime = 1000 and rest = "[flagRule ''b'' 50 True]"
      and allResults = "[]"]
    evaluateRules_fault_isolation [where e = "testEnv noReply" and rl = bogusRule
      and opts = DEFAULT_OPTIONS and st = "startState 1000"
      and errorMessage = "''Unknown trigger type: bogus''" and ?st1.0 = "startState 1000"
      and whn = "[(''bogus'', Some [])]" and k = "''bogus''" and t = "[]" and ks = "[]"
      and ?m0.0 = True and ?res0.0 = "[]" and startTime = 1000
      and rest = "[flagRule ''b'' 50 True]" and allResults = "[]"
      and ruleResults = "[(''r1_bogus'', failure ''Unknown trigger type: bogus'' 1000)]"]
    fault_run
  by blast

text \<open>
  The claim as stated fails on a trigger probe that throws: the probe of the unknown
  trigger type \<open>bogus\<close> throws, the results get the entry \<open>r1_bogus\<close> and no entry
  \<open>r1_error\<close>. The next rule is still evaluated and matches.
\<close>

theorem probe_throw_counterexample:
  "getProbeResult (testEnv noReply) ''bogus'' [] DEFAULT_OPTIONS (startState 1000) =
     (Inl ''Unknown trigger type: bogus'', startState 1000) \<and>
   map fst (results (fst (evaluateRules (testEnv noReply) [bogusRule, flagRule ''b'' 50 True]
      noOptions (startState 1000)))) = [''r1_bogus'', ''b_manualFlag''] \<and>
   map_of (results (fst (evaluateRules (testEnv noReply) [bogusRule, flagRule ''b'' 50 True]
      noOptions (startState 1000)))) ''r1_error'' = None \<and>
   map_option rule_id (rule (fst (evaluateRules (testEnv noReply) [bogusRule, flagRule ''b'' 50 True]
      noOptions (startState 1000)))) = Some ''b''"
  by code_simp

section \<open>The scan of the rules\<close>

lemma evaluateRule_merged_options:
  "evaluateRule e rl (as_options (spread_options DEFAULT_OPTIONS options)) st =
   evaluateRule e rl options st"
  by (simp add: evaluateRule_def spread_as_options)

lemma rulesLoop_append:
  "rulesLoop e opts startTime (pre @ post) allResults st =
     (case rulesLoop e opts startTime pre allResults st of
        (res, st1) \<Rightarrow>
          if matched res then (res, st1) else rulesLoop e opts startTime post (results res) st1)"
proof (induction pre arbitrary: allResults st)
  case Nil
  show ?case by simp
next
  case (Cons r pre)
  show ?case
    by (auto simp: Cons.IH Let_def split: prod.split sum.split option.split)
qed

lemma enabledRules_only_enabled: "enabledRules (filter rule_enabled rules) = enabledRules rules"
  by (simp add: enabledRules_def)

lemma evaluateRules_only_enabled:
  "evaluateRules e (filter rule_enabled rules) options st = evaluateRules e rules options st"
  unfolding evaluateRules_def enabledRules_only_enabled ..

lemma evaluateRules_stops_at_match:
  assumes order: "enabledRules rules = pre @ rl # post"
    and before: "rulesLoop e (spread_options DEFAULT_OPTIONS options) (Date_now e (world st)) pre [] st =
       (noMatch, st0)" "\<not> matched noMatch"
    and hit: "evaluateRule e rl options st0 = (Inr (True, ruleResults), st1)"
    and action: "rule_then rl = Some action"
  shows "evaluateRules e rules options st =
     (\<lparr>matched = True, rule = Some rl, profileId = Some (setActiveProfile action),
       results = spread (results noMatch) ruleResults,
       evaluationTime = Date_now e (world st1) - Date_now e (world st)\<rparr>, st1)"
proof -
  let ?opts = "spread_options DEFAULT_OPTIONS options"
  let ?start = "Date_now e (world st)"
  from hit have hit': "evaluateRule e rl (as_options ?opts) st0 = (Inr (True, ruleResults), st1)"
    by (simp add: evaluateRule_merged_options)
  have "evaluateRules e rules options st = rulesLoop e ?opts ?start (pre @ rl # post) [] st"
    using order by (simp add: evaluateRules_def Let_def)
  also have "\<dots> = rulesLoop e ?opts ?start (rl # post) (results noMatch) st0"
    using before by (simp add: rulesLoop_append)
  also have "\<dots> = (\<lparr>matched = True, rule = Some rl, profileId = Some (setActiveProfile action),
       results = spread (results noMatch) ruleResults,
       evaluationTime = Date_now e (world st1) - ?start\<rparr>, st1)"
    using hit' action by (rule rulesLoop_matched)
  finally show ?thesis .
qed

lemma flag_probe:
  assumes "enableCache opts \<longrightarrow> probeCache st = []"
  shows "\<exists>r st1. getProbeResult e ''manualFlag'' [(''value'', PBool True)] opts st = (Inr r, st1) \<and>
           success r"
proof -
  have c: "(if enableCache opts
            then cached_entry e (cacheKey ''manualFlag'' [(''value'', PBool True)]) st
            else None) = None"
    using assms by (simp add: cached_entry_def)
  have p: "probeSwitch e ''manualFlag'' [(''value'', PBool True)] (world st) =
      (Inr \<lparr>success = True, error = None, data = Some (ManualFlagData (Some True)),
            timestamp = Date_now e (world st)\<rparr>, world st)"
    by (simp add: probeSwitch_def testManualFlag_def bool_prop_def getProp_def)
  show ?thesis
    unfolding getProbeResult_def Let_def c p by simp
qed

lemma flag_rule_matches:
  "enableCache (spread_options DEFAULT_OPTIONS options) \<longrightarrow> probeCache st = [] \<Longrightarrow>
   \<exists>res st1. evaluateRule e (flagRule name p True) options st = (Inr (True, res), st1)"
proof -
  assume c: "enableCache (spread_options DEFAULT_OPTIONS options) \<longrightarrow> probeCache st = []"
  from flag_probe [OF c] obtain r st1 where
    g: "getProbeResult e ''manualFlag'' [(''value'', PBool True)]
      (spread_options DEFAULT_OPTIONS options) st = (Inr r, st1)" and "success r"
    by blast
  then show ?thesis
    by (simp add: evaluateRule_def flagRule_def trigger_of_def)
qed

lemma three_flag_rules:
  "matched (fst (evaluateRules e
      [flagRule ''a'' 200 True, flagRule ''b'' 50 True, flagRule ''c'' 100 True] noOptions
      \<lparr>probeCache = [], world = w\<rparr>)) \<and>
   rule (fst (evaluateRules e
      [flagRule ''a'' 200 True, flagRule ''b'' 50 True, flagRule ''c'' 100 True] noOptions
      \<lparr>probeCache = [], world = w\<rparr>)) = Some (flagRule ''b'' 50 True) \<and>
   profileId (fst (evaluateRules e
      [flagRule ''a'' 200 True, flagRule ''b'' 50 True, flagRule ''c'' 100 True] noOptions
      \<lparr>probeCache = [], world = w\<rparr>)) = Some ''profile-b''"
proof -
  let ?rules = "[flagRule ''a'' 200 True, flagRule ''b'' 50 True, flagRule ''c'' 100 True]"
  let ?st = "\<lparr>probeCache = [], world = w\<rparr>"
  have order: "enabledRules ?rules = [] @ flagRule ''b'' 50 True # [flagRule ''c'' 100 True, flagRule ''a'' 200 True]"
    by (simp add: enabledRules_def flagRule_def)
  have before: "rulesLoop e (spread_options DEFAULT_OPTIONS noOptions) (Date_now e (world ?st)) [] [] ?st =
      (\<lparr>matched = False, rule = None, profileId = None, results = [],
        evaluationTime = Date_now e (world ?st) - Date_now e (world ?st)\<rparr>, ?st)"
    by simp
  obtain res st1 where hit: "evaluateRule e (flagRule ''b'' 50 True) noOptions ?st = (Inr (True, res), st1)"
    using flag_rule_matches [of noOptions ?st e "''b''" 50] by auto
  have action: "rule_then (flagRule ''b'' 50 True) = Some \<lparr>setActiveProfile = ''profile-b''\<rparr>"
    by (simp add: flagRule_def)
  from evaluateRules_stops_at_match [OF order before _ hit action]
  show ?thesis by simp
qed

text \<open>
  Claim C1. \<open>evaluateRules\<close> scans \<open>enabledRules rules\<close>: exactly the rules with
  \<open>enabled = true\<close> (the disabled ones have no effect on the result), in ascending
  priority, rules of equal priority in the order they had. When the scan of the rules
  before a rule ends without a match, that rule's triggers all succeed (\<open>evaluateRule\<close>
  reports it matched) and the rule has its \<^verbatim>\<open>then\<close>, \<open>evaluateRules\<close> returns matched:true
  with that rule and \<open>profileId = rule.then.setActiveProfile\<close>, and the engine is left in
  the state right after that rule: the rules after it are not evaluated. Of three enabled
  rules with priorities 200, 50 and 100 whose only trigger is \<open>manualFlag: {value: true}\<close>,
  evaluated on an empty cache, the one with priority 50 is returned.
\<close>

theorem evaluateRules_priority_order:
  "set (enabledRules rules) = {r \<in> set rules. rule_enabled r} \<and>
   sorted (map rule_priority (enabledRules rules)) \<and>
   filter (\<lambda>r. rule_priority r = p) (enabledRules rules) =
     filter (\<lambda>r. rule_priority r = p) (filter rule_enabled rules) \<and>
   evaluateRules e (filter rule_enabled rules) options st = evaluateRules e rules options st \<and>
   (enabledRules rules = pre @ rl # post \<and>
    rulesLoop e (spread_options DEFAULT_OPTIONS options) (Date_now e (world st)) pre [] st =
      (noMatch, st0) \<and>
    \<not> matched noMatch \<and>
    evaluateRule e rl options st0 = (Inr (True, ruleResults), st1) \<and>
    rule_then rl = Some action \<longrightarrow>
      evaluateRules e rules options st =
        (\<lparr>matched = True, rule = Some rl, profileId = Some (setActiveProfile action),
          results = spread (results noMatch) ruleResults,
          evaluationTime = Date_now e (world st1) - Date_now e (world st)\<rparr>, st1)) \<and>
   matched (fst (evaluateRules e
      [flagRule ''a'' 200 True, flagRule ''b'' 50 True, flagRule ''c'' 100 True] noOptions
      \<lparr>probeCache = [], world = w\<rparr>)) \<and>
   rule (fst (evaluateRules e
      [flagRule ''a'' 200 True, flagRule ''b'' 50 True, flagRule ''c'' 100 True] noOptions
      \<lparr>probeCache = [], world = w\<rparr>)) = Some (flagRule ''b'' 50 True) \<and>
   profileId (fst (evaluateRules e
      [flagRule ''a'' 200 True, flagRule ''b'' 50 True, flagRule ''c'' 100 True] noOptions
      \<lparr>probeCache = [], world = w\<rparr>)) = Some ''profile-b''"
proof (intro conjI impI)
  show "set (enabledRules rules) = {r \<in> set rules. rule_enabled r}"
    by (simp add: enabledRules_def)
  show "sorted (map rule_priority (enabledRules rules))"
    by (simp add: enabledRules_def)
  show "filter (\<lambda>r. rule_priority r = p) (enabledRules rules) =
     filter (\<lambda>r. rule_priority r = p) (filter rule_enabled rules)"
    unfolding enabledRules_def by (rule sort_key_stable)
  show "evaluateRules e (filter rule_enabled rules) options st = evaluateRules e rules options st"
    by (rule evaluateRules_only_enabled)
  show "evaluateRules e rules options st =
        (\<lparr>matched = True, rule = Some rl, profileId = Some (setActiveProfile action),
          results = spread (results noMatch) ruleResults,
          evaluationTime = Date_now e (world st1) - Date_now e (world st)\<rparr>, st1)"
    if "enabledRules rules = pre @ rl # post \<and>
      rulesLoop e (spread_options DEFAULT_OPTIONS options) (Date_now e (world st)) pre [] st =
        (noMatch, st0) \<and>
      \<not> matched noMatch \<and>
      evaluateRule e rl options st0 = (Inr (True, ruleResults), st1) \<and>
      rule_then rl = Some action"
    using that evaluateRules_stops_at_match [of rules pre rl post e options st noMatch st0 ruleResults st1 action]
    by blast
qed (simp_all only: three_flag_rules)

lemma priority_run:
  "enabledRules [flagRule ''a'' 200 True, flagRule ''n'' 50 False, flagRule ''c'' 100 True] =
     [flagRule ''n'' 50 False] @ flagRule ''c'' 100 True # [flagRule ''a'' 200 True] \<and>
   \<not> matched (fst (rulesLoop (testEnv noReply) (spread_options DEFAULT_OPTIONS noOptions)
      (Date_now (testEnv noReply) (world (startState 1000))) [flagRule ''n'' 50 False] []
      (startState 1000))) \<and>
   fst (evaluateRule (testEnv noReply) (flagRule ''c'' 100 True) noOptions
      (snd (rulesLoop (testEnv noReply) (spread_options DEFAULT_OPTIONS noOptions)
         (Date_now (testEnv noReply) (world (startState 1000))) [flagRule ''n'' 50 False] []
         (startState 1000)))) =
     Inr (True, [(''c_manualFlag'',
                  \<lparr>success = True, error = None, data = Some (ManualFlagData (Some True)),
                   timestamp = 1000\<rparr>)]) \<and>
   rule_then (flagRule ''c'' 100 True) = Some \<lparr>setActiveProfile = ''profile-c''\<rparr>"
  by code_simp

theorem evaluateRules_priority_order_witness:
  "enabledRules [flagRule ''a'' 200 True, flagRule ''n'' 50 False, flagRule ''c'' 100 True] =
     [flagRule ''n'' 50 False] @ flagRule ''c'' 100 True # [flagRule ''a'' 200 True] \<and>
   \<not> matched (fst (rulesLoop (testEnv noReply) (spread_options DEFAULT_OPTIONS noOptions)
      (Date_now (testEnv noReply) (world (startState 1000))) [flagRule ''n'' 50 False] []
      (startState 1000))) \<and>
   rule_then (flagRule ''c'' 100 True) = Some \<lparr>setActiveProfile = ''profile-c''\<rparr> \<and>
   matched (fst (evaluateRules (testEnv noReply)
      [flagRule ''a'' 200 True, flagRule ''n'' 50 False, flagRule ''c'' 100 True] noOptions
      (startState 1000))) \<and>
   rule (fst (evaluateRules (testEnv noReply)
      [flagRule ''a'' 200 True, flagRule ''n'' 50 False, flagRule ''c'' 100 True] noOptions
      (startState 1000))) = Some (flagRule ''c'' 100 True) \<and>
   profileId (fst (evaluateRules (testEnv noReply)
      [flagRule ''a'' 200 True, flagRule ''n'' 50 False, flagRule ''c'' 100 True] noOptions
      (startState 1000))) = Some ''profile-c''"
proof -
  let ?rules = "[flagRule ''a'' 200 True, flagRule ''n'' 50 False, flagRule ''c'' 100 True]"
  let ?scan = "rulesLoop (testEnv noReply) (spread_options DEFAULT_OPTIONS noOptions)
      (Date_now (testEnv noReply) (world (startState 1000))) [flagRule ''n'' 50 False] []
      (startState 1000)"
  let ?hit = "evaluateRule (testEnv noReply) (flagRule ''c'' 100 True) noOptions (snd ?scan)"
  let ?res = "[(''c_manualFlag'',
                \<lparr>success = True, error = None, data = Some (ManualFlagData (Some True)),
                 timestamp = 1000\<rparr>)]"
  have h: "enabledRules ?rules = [flagRule ''n'' 50 False] @ flagRule ''c'' 100 True # [flagRule ''a'' 200 True] \<and>
      ?scan = (fst ?scan, snd ?scan) \<and> \<not> matched (fst ?scan) \<and>
      ?hit = (Inr (True, ?res), snd ?hit) \<and>
      rule_then (flagRule ''c'' 100 True) = Some \<lparr>setActiveProfile = ''profile-c''\<rparr>"
    using priority_run by (simp add: prod_eq_iff)
  note run = evaluateRules_priority_order [where e = "testEnv noReply" and rules = ?rules
      and options = noOptions and st = "startState 1000" and pre = "[flagRule ''n'' 50 False]"
      and rl = "flagRule ''c'' 100 True" and post = "[flagRule ''a'' 200 True]"
      and noMatch = "fst ?scan" and ?st0.0 = "snd ?scan" and ruleResults = ?res
      and ?st1.0 = "snd ?hit" and action = "\<lparr>setActiveProfile = ''profile-c''\<rparr>",
      THEN conjunct2, THEN conjunct2, THEN conjunct2, THEN conjunct2, THEN conjunct1,
      rule_format, OF h]
  from h run show ?thesis by simp
qed

section \<open>The stopOnMatch field\<close>

lemma with_stopOnMatch_fields:
  "rule_id (with_stopOnMatch b rl) = rule_id rl"
  "rule_enabled (with_stopOnMatch b rl) = rule_enabled rl"
  "rule_priority (with_stopOnMatch b rl) = rule_priority rl"
  "rule_when (with_stopOnMatch b rl) = rule_when rl"
  "rule_then (with_stopOnMatch b rl) = rule_then rl"
  "probeKey (with_stopOnMatch b rl) k = probeKey rl k"
  by (simp_all add: with_stopOnMatch_def probeKey_def)

lemma evaluateTriggers_stopOnMatch:
  "evaluateTriggers e (with_stopOnMatch b rl) whn opts ks acc = evaluateTriggers e rl whn opts ks acc"
proof (induction ks arbitrary: acc)
  case Nil
  show ?case by simp
next
  case (Cons k ks)
  obtain m res st where acc: "acc = (m, res, st)" by (cases acc)
  show ?case
    unfolding acc
    by (simp add: Cons.IH with_stopOnMatch_fields split: option.split prod.split sum.split)
qed

lemma evaluateRule_stopOnMatch:
  "evaluateRule e (with_stopOnMatch b rl) options st = evaluateRule e rl options st"
  unfolding evaluateRule_def evaluateTriggers_stopOnMatch with_stopOnMatch_fields ..

lemma rulesLoop_stopOnMatch:
  "rulesLoop e opts startTime (map (with_stopOnMatch b) rs) allResults st =
     (case rulesLoop e opts startTime rs allResults st of
        (res, st1) \<Rightarrow> (res\<lparr>rule := map_option (with_stopOnMatch b) (rule res)\<rparr>, st1))"
proof (induction rs arbitrary: allResults st)
  case Nil
  show ?case by simp
next
  case (Cons r rs)
  show ?case
    by (simp add: Cons.IH evaluateRule_stopOnMatch with_stopOnMatch_fields Let_def
        split: prod.split sum.split option.split)
qed

lemma insort_key_stopOnMatch:
  "insort_key rule_priority (with_stopOnMatch b r) (map (with_stopOnMatch b) rs) =
   map (with_stopOnMatch b) (insort_key rule_priority r rs)"
  by (induction rs) (simp_all add: with_stopOnMatch_fields)

lemma enabledRules_stopOnMatch:
  "enabledRules (map (with_stopOnMatch b) rules) = map (with_stopOnMatch b) (enabledRules rules)"
proof -
  have s: "sort_key rule_priority (map (with_stopOnMatch b) rs) =
      map (with_stopOnMatch b) (sort_key rule_priority rs)" for rs
    by (induction rs) (simp_all add: insort_key_stopOnMatch)
  have f: "filter rule_enabled (map (with_stopOnMatch b) rs) =
      map (with_stopOnMatch b) (filter rule_enabled rs)" for rs
    by (induction rs) (simp_all add: with_stopOnMatch_fields)
  show ?thesis by (simp add: enabledRules_def f s)
qed

lemma evaluateRules_stopOnMatch:
  "evaluateRules e (map (with_stopOnMatch b) rules) options st =
     (case evaluateRules e rules options st of
        (res, st1) \<Rightarrow> (res\<lparr>rule := map_option (with_stopOnMatch b) (rule res)\<rparr>, st1))"
  by (simp add: evaluateRules_def enabledRules_stopOnMatch rulesLoop_stopOnMatch Let_def)

text \<open>
  Claim C9. Let \<open>rules'\<close> be \<open>rules\<close> with the \<open>stopOnMatch\<close> fields of any of the rules
  changed (the two lists agree once every \<open>stopOnMatch\<close> is overwritten with the same
  value). Then \<open>evaluateRules\<close> gives the same matched flag, the same rule id and
  profileId, the same results map (so the same keys) and the same engine state on both;
  the returned rules differ at most in \<open>stopOnMatch\<close>. The model of \<open>evaluateRules\<close> reads
  the field nowhere: the code reads it to decide on a debug message only.
\<close>

theorem evaluateRules_ignores_stopOnMatch:
  "map (with_stopOnMatch False) rules' = map (with_stopOnMatch False) rules \<longrightarrow>
     matched (fst (evaluateRules e rules' options st)) = matched (fst (evaluateRules e rules options st)) \<and>
     map_option rule_id (rule (fst (evaluateRules e rules' options st))) =
       map_option rule_id (rule (fst (evaluateRules e rules options st))) \<and>
     map_option (with_stopOnMatch False) (rule (fst (evaluateRules e rules' options st))) =
       map_option (with_stopOnMatch False) (rule (fst (evaluateRules e rules options st))) \<and>
     profileId (fst (evaluateRules e rules' options st)) =
       profileId (fst (evaluateRules e rules options st)) \<and>
     results (fst (evaluateRules e rules' options st)) = results (fst (evaluateRules e rules options st)) \<and>
     evaluationTime (fst (evaluateRules e rules' options st)) =
       evaluationTime (fst (evaluateRules e rules options st)) \<and>
     snd (evaluateRules e rules' options st) = snd (evaluateRules e rules options st)"
proof
  assume same: "map (with_stopOnMatch False) rules' = map (with_stopOnMatch False) rules"
  obtain res st1 where r: "evaluateRules e rules options st = (res, st1)"
    by (cases "evaluateRules e rules options st")
  obtain res' st1' where r': "evaluateRules e rules' options st = (res', st1')"
    by (cases "evaluateRules e rules' options st")
  from evaluateRules_stopOnMatch [of e False rules options st] r
  have a: "evaluateRules e (map (with_stopOnMatch False) rules) options st =
      (res\<lparr>rule := map_option (with_stopOnMatch False) (rule res)\<rparr>, st1)"
    by simp
  from evaluateRules_stopOnMatch [of e False rules' options st] r'
  have b: "evaluateRules e (map (with_stopOnMatch False) rules') options st =
      (res'\<lparr>rule := map_option (with_stopOnMatch False) (rule res')\<rparr>, st1')"
    by simp
  from a b same have eq: "res'\<lparr>rule := map_option (with_stopOnMatch False) (rule res')\<rparr> =
      res\<lparr>rule := map_option (with_stopOnMatch False) (rule res)\<rparr>" and st: "st1' = st1"
    by simp_all
  from eq have m: "matched res' = matched res" and p: "profileId res' = profileId res"
    and rs: "results res' = results res" and t: "evaluationTime res' = evaluationTime res"
    and ru: "map_option (with_stopOnMatch False) (rule res') =
             map_option (with_stopOnMatch False) (rule res)"
    by (cases res, cases res', simp)+
  have "map_option rule_id (map_option (with_stopOnMatch False) x) = map_option rule_id x" for x
    by (cases x) (simp_all add: with_stopOnMatch_def)
  with ru have ri: "map_option rule_id (rule res') = map_option rule_id (rule res)"
    by metis
  from m p rs t ru ri st show
    "matched (fst (evaluateRules e rules' options st)) = matched (fst (evaluateRules e rules options st)) \<and>
     map_option rule_id (rule (fst (evaluateRules e rules' options st))) =
       map_option rule_id (rule (fst (evaluateRules e rules options st))) \<and>
     map_option (with_stopOnMatch False) (rule (fst (evaluateRules e rules' options st))) =
       map_option (with_stopOnMatch False) (rule (fst (evaluateRules e rules options st))) \<and>
     profileId (fst (evaluateRules e rules' options st)) =
       profileId (fst (evaluateRules e rules options st)) \<and>
     results (fst (evaluateRules e rules' options st)) = results (fst (evaluateRules e rules options st)) \<and>
     evaluationTime (fst (evaluateRules e rules' options st)) =
       evaluationTime (fst (evaluateRules e rules options st)) \<and>
     snd (evaluateRules e rules' options st) = snd (evaluateRules e rules options st)"
    unfolding r r' by simp
qed

lemma flipped_rules:
  "map (with_stopOnMatch False)
     [with_stopOnMatch False (flagRule ''a'' 200 True), flagRule ''n'' 50 False,
      with_stopOnMatch False (flagRule ''c'' 100 True)] =
   map (with_stopOnMatch False)
     [flagRule ''a'' 200 True, flagRule ''n'' 50 False, flagRule ''c'' 100 True] \<and>
   rule_stopOnMatch (flagRule ''c'' 100 True) \<and>
   \<not> rule_stopOnMatch (with_stopOnMatch False (flagRule ''c'' 100 True))"
  by (simp add: with_stopOnMatch_def flagRule_def)

theorem evaluateRules_ignores_stopOnMatch_witness:
  "map (with_stopOnMatch False)
     [with_stopOnMatch False (flagRule ''a'' 200 True), flagRule ''n'' 50 False,
      with_stopOnMatch False (flagRule ''c'' 100 True)] =
   map (with_stopOnMatch False)
     [flagRule ''a'' 200 True, flagRule ''n'' 50 False, flagRule ''c'' 100 True] \<and>
   rule_stopOnMatch (flagRule ''c'' 100 True) \<and>
   \<not> rule_stopOnMatch (with_stopOnMatch False (flagRule ''c'' 100 True)) \<and>
   matched (fst (evaluateRules (testEnv noReply)
     [with_stopOnMatch False (flagRule ''a'' 200 True), flagRule ''n'' 50 False,
      with_stopOnMatch False (flagRule ''c'' 100 True)] noOptions (startState 1000))) =
   matched (fst (evaluateRules (testEnv noReply)
     [flagRule ''a'' 200 True, flagRule ''n'' 50 False, flagRule ''c'' 100 True] noOptions
     (startState 1000))) \<and>
   map_option rule_id (rule (fst (evaluateRules (testEnv noReply)
     [with_stopOnMatch False (flagRule ''a'' 200 True), flagRule ''n'' 50 False,
      with_stopOnMatch False (flagRule ''c'' 100 True)] noOptions (startState 1000)))) =
   map_option rule_id (rule (fst (evaluateRules (testEnv noReply)
     [flagRule ''a'' 200 True, flagRule ''n'' 50 False, flagRule ''c'' 100 True] noOptions
     (startState 1000)))) \<and>
   results (fst (evaluateRules (testEnv noReply)
     [with_stopOnMatch False (flagRule ''a'' 200 True), flagRule ''n'' 50 False,
      with_stopOnMatch False (flagRule ''c'' 100 True)] noOptions (startState 1000))) =
   results (fst (evaluateRules (testEnv noReply)
     [flagRule ''a'' 200 True, flagRule ''n'' 50 False, flagRule ''c'' 100 True] noOptions
     (startState 1000)))"
  using
    evaluateRules_ignores_stopOnMatch [where e = "testEnv noReply" and options = noOptions
      and st = "startState 1000"
      and rules' = "[with_stopOnMatch False (flagRule ''a'' 200 True), flagRule ''n'' 50 False,
                     with_stopOnMatch False (flagRule ''c'' 100 True)]"
      and rules = "[flagRule ''a'' 200 True, flagRule ''n'' 50 False, flagRule ''c'' 100 True]"]
    flipped_rules
  by blast

end
